theory Spec2Isabelle
  imports Complex_Main "HOL-Library.Char_ord" "HOL-Library.List_Lexorder"
begin

section \<open>Strings and regular expressions\<close>

text \<open>
  JavaScript strings are modelled as \<^typ>\<open>string\<close>. The two regular expressions of the
  source (\<^verbatim>\<open>/^([01]?[0-9]|2[0-3]):[0-5][0-9]$/\<close> in \<^verbatim>\<open>routes/bookings.js\<close> and the
  e-mail pattern of \<^verbatim>\<open>models/Booking.js\<close>) are both anchored with \<^verbatim>\<open>^\<close> and \<^verbatim>\<open>$\<close> and
  use only character classes, concatenation, alternation and repetition, so a string matches
  exactly when the whole string belongs to the language of the expression. Membership is
  decided by running the expression over the string, character by character, on the set of
  its partial derivatives.
\<close>

datatype regexp =
    Never
  | Empty
  | Class "(char \<times> char) list"
  | Then regexp regexp
  | Or regexp regexp
  | Many regexp

definition in_class :: "(char \<times> char) list \<Rightarrow> char \<Rightarrow> bool" where
  "in_class rs c = list_ex (\<lambda>(lo, hi). (of_char lo :: nat) \<le> of_char c \<and> (of_char c :: nat) \<le> of_char hi) rs"

fun nullable :: "regexp \<Rightarrow> bool" where
  "nullable Never = False"
| "nullable Empty = True"
| "nullable (Class rs) = False"
| "nullable (Then r s) = (nullable r \<and> nullable s)"
| "nullable (Or r s) = (nullable r \<or> nullable s)"
| "nullable (Many r) = True"

text \<open>The partial derivatives of an expression by a character.\<close>

fun pderiv :: "char \<Rightarrow> regexp \<Rightarrow> regexp list" where
  "pderiv c Never = []"
| "pderiv c Empty = []"
| "pderiv c (Class rs) = (if in_class rs c then [Empty] else [])"
| "pderiv c (Then r s) =
     map (\<lambda>r'. Then r' s) (pderiv c r) @ (if nullable r then pderiv c s else [])"
| "pderiv c (Or r s) = pderiv c r @ pderiv c s"
| "pderiv c (Many r) = map (\<lambda>r'. Then r' (Many r)) (pderiv c r)"

definition step :: "char \<Rightarrow> regexp list \<Rightarrow> regexp list" where
  "step c rs = remdups (concat (map (pderiv c) rs))"

text \<open>\<^verbatim>\<open>RegExp.prototype.test\<close> for an expression anchored at both ends.\<close>

definition test :: "regexp \<Rightarrow> string \<Rightarrow> bool" where
  "test r s = list_ex nullable (foldl (\<lambda>rs c. step c rs) [r] s)"

text \<open>
  What \<^const>\<open>test\<close> decides: the language of an expression, the set of the strings that
  the anchored JavaScript expression matches.
\<close>

inductive_set star :: "string set \<Rightarrow> string set" for A :: "string set" where
  none: "[] \<in> star A"
| more: "u \<in> A \<Longrightarrow> v \<in> star A \<Longrightarrow> u @ v \<in> star A"

definition conc :: "string set \<Rightarrow> string set \<Rightarrow> string set" where
  "conc A B = {u @ v | u v. u \<in> A \<and> v \<in> B}"

fun lang :: "regexp \<Rightarrow> string set" where
  "lang Never = {}"
| "lang Empty = {[]}"
| "lang (Class rs) = {[c] | c. in_class rs c}"
| "lang (Then r s) = conc (lang r) (lang s)"
| "lang (Or r s) = lang r \<union> lang s"
| "lang (Many r) = star (lang r)"

definition lit :: "char \<Rightarrow> regexp" where
  "lit c = Class [(c, c)]"

definition opt :: "regexp \<Rightarrow> regexp" where
  "opt r = Or r Empty"

definition many1 :: "regexp \<Rightarrow> regexp" where
  "many1 r = Then r (Many r)"

text \<open>\<^verbatim>\<open>\s\<close> of JavaScript, restricted to the characters a \<^typ>\<open>char\<close> can hold.\<close>

definition isSpace :: "char \<Rightarrow> bool" where
  "isSpace c = (let n = (of_char c :: nat) in (9 \<le> n \<and> n \<le> 13) \<or> n = 32 \<or> n = 160)"

definition trim :: "string \<Rightarrow> string" where
  "trim s = rev (dropWhile isSpace (rev (dropWhile isSpace s)))"

definition toLowerCase :: "string \<Rightarrow> string" where
  "toLowerCase s =
     map (\<lambda>c. let n = (of_char c :: nat) in if 65 \<le> n \<and> n \<le> 90 then char_of (n + 32) else c) s"

text \<open>\<^verbatim>\<open>Number.prototype.toString\<close> on a natural number: its decimal digits.\<close>

definition digit :: "nat \<Rightarrow> char" where
  "digit n = ''0123456789'' ! (n mod 10)"

fun toString :: "nat \<Rightarrow> string" where
  "toString n = (if n < 10 then [digit n] else toString (n div 10) @ [digit n])"

definition padStart :: "nat \<Rightarrow> char \<Rightarrow> string \<Rightarrow> string" where
  "padStart n c s = replicate (n - length s) c @ s"

section \<open>Data model\<close>

text \<open>
  An ObjectId is opaque. A \<^verbatim>\<open>Date\<close> is its time value, the number of milliseconds since
  the epoch; an invalid \<^verbatim>\<open>Date\<close> is \<^const>\<open>None\<close>. Prices are numbers. Of a Service
  the model keeps the four fields that a booking copies; of a Booking every field of the
  schema but \<^verbatim>\<open>stylist\<close>, which no route sets.
\<close>

type_synonym objectId = nat
type_synonym date = int

record service_doc =
  name :: string
  price :: real
  duration :: string
  category :: string

record booking =
  booking_id :: objectId
  clientName :: string
  clientEmail :: string
  clientPhone :: string
  service :: objectId
  serviceName :: string
  servicePrice :: real
  serviceDuration :: string
  serviceCategory :: string
  appointmentDate :: date
  appointmentTime :: string
  notes' :: string
  status :: string
  totalAmount :: real
  paymentStatus :: string
  createdAt :: date
  updatedAt :: date

text \<open>
  What the routes take from their libraries and from the machine they run on: the validators
  and sanitizers of express-validator whose rule is not written out in the repository, the
  \<^verbatim>\<open>Date\<close> constructor on a string, the offset of local time from UTC at a time value, and the
  cast of a string to an ObjectId that Mongoose performs in \<^verbatim>\<open>findById\<close>. The clock
  (\<^verbatim>\<open>new Date()\<close>) is passed to every operation as \<open>now\<close>.
\<close>

record host =
  isEmail :: "string \<Rightarrow> bool"
  normalizeEmail :: "string \<Rightarrow> string"
  isMongoId :: "string \<Rightarrow> bool"
  isISO8601 :: "string \<Rightarrow> bool"
  newDate :: "string \<Rightarrow> date option"
  localTZA :: "date \<Rightarrow> int"
  castObjectId :: "string \<Rightarrow> objectId option"

text \<open>
  The failures of the routes, after the kinds of the specification. The handlers answer
  400 for \<open>ValidationError\<close> (\<^verbatim>\<open>Validation failed\<close> with the messages of the failed
  validators, or \<^verbatim>\<open>Service ID is required\<close>), for \<open>InvalidArgument\<close> (a status outside
  \<^verbatim>\<open>validStatuses\<close>) and for \<open>InvalidState\<close> (the two refusals of the cancel route), 404 for
  \<open>NotFound\<close>, 409 for \<open>Conflict\<close>, and 500 for \<open>ServerError\<close>, the answer of every
  \<^verbatim>\<open>catch\<close> block.
\<close>

datatype error =
    ValidationError "string list"
  | InvalidArgument
  | InvalidState string
  | NotFound string
  | Conflict
  | ServerError string

text \<open>The filter \<^verbatim>\<open>status: { $in: ['pending', 'confirmed'] }\<close> of both queries.\<close>

definition active :: "booking \<Rightarrow> bool" where
  "active b = (status b \<in> set [''pending'', ''confirmed''])"

section \<open>The Booking schema\<close>

text \<open>
  \<^verbatim>\<open>/^\w+([.-]?\w+)*@\w+([.-]?\w+)*(\.\w{2,3})+$/\<close>, the \<^verbatim>\<open>match\<close> of \<^verbatim>\<open>clientEmail\<close>.
\<close>

definition word :: regexp where
  "word = Class [(CHR ''A'', CHR ''Z''), (CHR ''a'', CHR ''z''), (CHR ''0'', CHR ''9''),
                 (CHR ''_'', CHR ''_'')]"

definition clientEmail_match :: regexp where
  "clientEmail_match =
     (let dotted = Many (Then (opt (Class [(CHR ''.'', CHR ''.''), (CHR ''-'', CHR ''-'')])) (many1 word))
      in Then (many1 word) (Then dotted (Then (lit CHR ''@'') (Then (many1 word) (Then dotted
           (many1 (Then (lit CHR ''.'') (Then word (Then word (opt word))))))))))"

definition validStatuses :: "string list" where
  "validStatuses = [''pending'', ''confirmed'', ''completed'', ''cancelled'']"

text \<open>
  Document validation against \<^verbatim>\<open>bookingSchema\<close>: \<^verbatim>\<open>required\<close> (a required string must
  not be empty), \<^verbatim>\<open>maxlength\<close>, \<^verbatim>\<open>match\<close>, \<^verbatim>\<open>min\<close>, \<^verbatim>\<open>enum\<close> and the custom validator of
  \<^verbatim>\<open>appointmentDate\<close>, which compares the date with the clock at the time of validation.
\<close>

definition bookingSchema_validate :: "date \<Rightarrow> booking \<Rightarrow> bool" where
  "bookingSchema_validate now b =
     (clientName b \<noteq> [] \<and> length (clientName b) \<le> 100 \<and>
      clientEmail b \<noteq> [] \<and> test clientEmail_match (clientEmail b) \<and>
      clientPhone b \<noteq> [] \<and>
      serviceName b \<noteq> [] \<and>
      0 \<le> servicePrice b \<and>
      serviceDuration b \<noteq> [] \<and>
      serviceCategory b \<noteq> [] \<and>
      appointmentDate b > now \<and>
      appointmentTime b \<noteq> [] \<and>
      length (notes' b) \<le> 500 \<and>
      status b \<in> set validStatuses \<and>
      0 \<le> totalAmount b \<and>
      paymentStatus b \<in> set [''pending'', ''paid'', ''refunded''])"

text \<open>\<^verbatim>\<open>bookingSchema.pre('save')\<close>.\<close>

definition pre_save :: "date \<Rightarrow> booking \<Rightarrow> booking" where
  "pre_save now this = this\<lparr>totalAmount := servicePrice this, updatedAt := now\<rparr>"

section \<open>The collection of bookings\<close>

text \<open>
  The collection is the list of its documents in insertion order. \<^verbatim>\<open>findById\<close> and
  \<^verbatim>\<open>findOne\<close> return the first document that matches, an update by id changes the first
  document with that id, and an insert is refused when the id is already there.
\<close>

definition findById :: "objectId \<Rightarrow> booking list \<Rightarrow> booking option" where
  "findById i bookings = find (\<lambda>b. booking_id b = i) bookings"

fun updateOne :: "objectId \<Rightarrow> booking \<Rightarrow> booking list \<Rightarrow> booking list" where
  "updateOne i doc [] = []"
| "updateOne i doc (b # bs) = (if booking_id b = i then doc # bs else b # updateOne i doc bs)"

text \<open>
  \<^verbatim>\<open>document.save()\<close>. Mongoose validates the document against the schema first
  (validation is the first \<^verbatim>\<open>pre('save')\<close> hook and covers the paths loaded from the
  store as well as the modified ones), then runs the schema's own \<^verbatim>\<open>pre('save')\<close> hook,
  then inserts a new document or updates the stored one. \<^const>\<open>None\<close> is a rejected
  promise.
\<close>

definition save :: "date \<Rightarrow> bool \<Rightarrow> booking list \<Rightarrow> booking \<Rightarrow> (booking \<times> booking list) option" where
  "save now isNew bookings doc =
     (if \<not> bookingSchema_validate now doc then None
      else
        (let doc' = pre_save now doc
         in if isNew
            then (if findById (booking_id doc') bookings \<noteq> None then None
                  else Some (doc', bookings @ [doc']))
            else Some (doc', updateOne (booking_id doc') doc' bookings)))"

section \<open>Request validation\<close>

record body =
  req_clientName :: string
  req_clientEmail :: string
  req_clientPhone :: string
  req_service :: string
  req_appointmentDate :: string
  req_appointmentTime :: string
  req_notes :: "string option"

text \<open>\<^verbatim>\<open>/^([01]?[0-9]|2[0-3]):[0-5][0-9]$/\<close>\<close>

definition appointmentTime_pattern :: regexp where
  "appointmentTime_pattern =
     Then (Or (Then (opt (Class [(CHR ''0'', CHR ''1'')])) (Class [(CHR ''0'', CHR ''9'')]))
              (Then (lit CHR ''2'') (Class [(CHR ''0'', CHR ''3'')])))
          (Then (lit CHR '':'')
                (Then (Class [(CHR ''0'', CHR ''5'')]) (Class [(CHR ''0'', CHR ''9'')])))"

text \<open>
  The custom validator of \<^verbatim>\<open>appointmentDate\<close>: \<^verbatim>\<open>date > new Date()\<close> compares time
  values, and is false for an invalid date.
\<close>

definition date_in_future :: "host \<Rightarrow> date \<Rightarrow> string \<Rightarrow> bool" where
  "date_in_future h now v = (case newDate h v of None \<Rightarrow> False | Some d \<Rightarrow> d > now)"

text \<open>
  The sanitizers of \<^verbatim>\<open>validateBooking\<close> rewrite the request body; each validator sees
  the value as the sanitizers before it in its chain left it.
\<close>

definition sanitize :: "host \<Rightarrow> body \<Rightarrow> body" where
  "sanitize h b =
     b\<lparr>req_clientName := trim (req_clientName b),
       req_clientEmail := normalizeEmail h (req_clientEmail b),
       req_clientPhone := trim (req_clientPhone b),
       req_appointmentTime := trim (req_appointmentTime b),
       req_notes := map_option trim (req_notes b)\<rparr>"

definition validateBooking :: "host \<Rightarrow> date \<Rightarrow> body \<Rightarrow> string list" where
  "validateBooking h now b =
     (if 2 \<le> length (trim (req_clientName b)) \<and> length (trim (req_clientName b)) \<le> 100 then []
      else [''Name must be between 2 and 100 characters'']) @
     (if isEmail h (req_clientEmail b) then []
      else [''Please provide a valid email address'']) @
     (if 10 \<le> length (trim (req_clientPhone b)) then []
      else [''Please provide a valid phone number'']) @
     (if isMongoId h (req_service b) then []
      else [''Please select a valid service'']) @
     (if isISO8601 h (req_appointmentDate b) then [] else [''Invalid value'']) @
     (if date_in_future h now (req_appointmentDate b) then []
      else [''Appointment date must be in the future'']) @
     (if test appointmentTime_pattern (trim (req_appointmentTime b)) then []
      else [''Please provide a valid time in HH:MM format'']) @
     (case req_notes b of
        None \<Rightarrow> []
      | Some n \<Rightarrow> if length (trim n) \<le> 500 then [] else [''Notes cannot exceed 500 characters''])"

section \<open>Booking lifecycle\<close>

text \<open>
  Each operation takes the collection and returns the response, the collection after the
  operation and what it wrote with \<^verbatim>\<open>console.error\<close>. The \<^verbatim>\<open>populate\<close> of the response,
  which joins the live Service into the JSON that is sent, changes no field of the booking
  and is left out.
\<close>

type_synonym 'a outcome = "(error + 'a) \<times> booking list \<times> string list"

text \<open>
  \<^verbatim>\<open>new Booking({...})\<close> as \<^verbatim>\<open>router.post('/')\<close> calls it, with the setters
  (\<^verbatim>\<open>trim\<close>, \<^verbatim>\<open>lowercase\<close>) and the defaults of the schema.
\<close>

definition new_Booking :: "date \<Rightarrow> objectId \<Rightarrow> objectId \<Rightarrow> service_doc \<Rightarrow> date \<Rightarrow> body \<Rightarrow> booking" where
  "new_Booking now new_id serviceId svc appointmentDate' b =
     \<lparr>booking_id = new_id,
      clientName = trim (req_clientName b),
      clientEmail = trim (toLowerCase (req_clientEmail b)),
      clientPhone = trim (req_clientPhone b),
      service = serviceId,
      serviceName = name svc,
      servicePrice = price svc,
      serviceDuration = duration svc,
      serviceCategory = category svc,
      appointmentDate = appointmentDate',
      appointmentTime = req_appointmentTime b,
      notes' = (case req_notes b of None \<Rightarrow> ''No special requests''
                | Some n \<Rightarrow> if n = [] then ''No special requests'' else n),
      status = ''pending'',
      totalAmount = price svc,
      paymentStatus = ''pending'',
      createdAt = now,
      updatedAt = now\<rparr>"

text \<open>
  \<^verbatim>\<open>router.post('/')\<close>. \<open>new_id\<close> is the ObjectId that the constructor generates, and
  \<open>sendBookingConfirmation\<close> tells whether the confirmation e-mail for a booking is
  delivered (\<^const>\<open>False\<close>: the call throws).
\<close>

definition Create ::
  "host \<Rightarrow> date \<Rightarrow> objectId \<Rightarrow> (booking \<Rightarrow> bool) \<Rightarrow> (objectId \<rightharpoonup> service_doc) \<Rightarrow> booking list
     \<Rightarrow> body \<Rightarrow> booking outcome" where
  "Create h now new_id sendBookingConfirmation services bookings req =
     (let errors = validateBooking h now req; b = sanitize h req
      in if errors \<noteq> [] then (Inl (ValidationError errors), bookings, [])
         else
           (case castObjectId h (req_service b) of
              None \<Rightarrow> (Inl (ServerError ''Failed to create booking''), bookings,
                         [''Error creating booking:''])
            | Some serviceId \<Rightarrow>
                (case services serviceId of
                   None \<Rightarrow> (Inl (NotFound ''Service not found''), bookings, [])
                 | Some svc \<Rightarrow>
                     (case newDate h (req_appointmentDate b) of
                        None \<Rightarrow> (Inl (ServerError ''Failed to create booking''), bookings,
                                   [''Error creating booking:''])
                      | Some appointmentDate' \<Rightarrow>
                          (case find (\<lambda>c. appointmentDate c = appointmentDate' \<and>
                                           appointmentTime c = req_appointmentTime b \<and> active c)
                                  bookings of
                             Some conflictingBooking \<Rightarrow> (Inl Conflict, bookings, [])
                           | None \<Rightarrow>
                               (case save now True bookings
                                       (new_Booking now new_id serviceId svc appointmentDate' b) of
                                  None \<Rightarrow> (Inl (ServerError ''Failed to create booking''),
                                             bookings, [''Error creating booking:''])
                                | Some (booking, bookings') \<Rightarrow>
                                    (Inr booking, bookings',
                                     if sendBookingConfirmation booking then []
                                     else [''Failed to send confirmation email:''])))))))"

text \<open>
  \<^verbatim>\<open>router.patch('/:id/status')\<close>. \<^verbatim>\<open>findByIdAndUpdate\<close> with \<^verbatim>\<open>runValidators\<close>
  validates the updated path only, \<^verbatim>\<open>status\<close>, whose \<^verbatim>\<open>enum\<close> is the list just checked;
  it runs no \<^verbatim>\<open>save\<close> hook, and the \<^verbatim>\<open>timestamps\<close> option sets \<^verbatim>\<open>updatedAt\<close>.
\<close>

definition UpdateStatus :: "host \<Rightarrow> date \<Rightarrow> booking list \<Rightarrow> string \<Rightarrow> string \<Rightarrow> booking outcome" where
  "UpdateStatus h now bookings id' status' =
     (if status' \<notin> set validStatuses then (Inl InvalidArgument, bookings, [])
      else
        (case castObjectId h id' of
           None \<Rightarrow> (Inl (ServerError ''Failed to update booking status''), bookings,
                      [''Error updating booking status:''])
         | Some i \<Rightarrow>
             (case findById i bookings of
                None \<Rightarrow> (Inl (NotFound ''Booking not found''), bookings, [])
              | Some found \<Rightarrow>
                  (let booking = found\<lparr>status := status', updatedAt := now\<rparr>
                   in (Inr booking, updateOne i booking bookings, [])))))"

text \<open>\<^verbatim>\<open>router.patch('/:id/cancel')\<close>\<close>

definition Cancel :: "host \<Rightarrow> date \<Rightarrow> booking list \<Rightarrow> string \<Rightarrow> booking outcome" where
  "Cancel h now bookings id' =
     (case castObjectId h id' of
        None \<Rightarrow> (Inl (ServerError ''Failed to cancel booking''), bookings,
                   [''Error cancelling booking:''])
      | Some i \<Rightarrow>
          (case findById i bookings of
             None \<Rightarrow> (Inl (NotFound ''Booking not found''), bookings, [])
           | Some booking \<Rightarrow>
               (if status booking = ''cancelled''
                then (Inl (InvalidState ''Booking is already cancelled''), bookings, [])
                else if status booking = ''completed''
                then (Inl (InvalidState ''Cannot cancel completed booking''), bookings, [])
                else
                  (case save now False bookings (booking\<lparr>status := ''cancelled''\<rparr>) of
                     None \<Rightarrow> (Inl (ServerError ''Failed to cancel booking''), bookings,
                                [''Error cancelling booking:''])
                   | Some (booking', bookings') \<Rightarrow> (Inr booking', bookings', [])))))"

text \<open>
  The collections that the three operations can produce from the empty collection, with
  any host, clock, catalog of services and request at each step.
\<close>

inductive reachable :: "booking list \<Rightarrow> bool" where
  empty: "reachable []"
| create: "reachable bs \<Longrightarrow> Create h now new_id send services bs req = (r, bs', out) \<Longrightarrow> reachable bs'"
| update: "reachable bs \<Longrightarrow> UpdateStatus h now bs id' status' = (r, bs', out) \<Longrightarrow> reachable bs'"
| cancel: "reachable bs \<Longrightarrow> Cancel h now bs id' = (r, bs', out) \<Longrightarrow> reachable bs'"

section \<open>Availability\<close>

text \<open>\<^verbatim>\<open>Date.prototype.getDay\<close>: the weekday of the local time, 0 for Sunday.\<close>

definition getDay :: "host \<Rightarrow> date \<Rightarrow> int" where
  "getDay h t = ((t + localTZA h t) div 86400000 + 4) mod 7"

text \<open>
  The weekday of a calendar date, in the words of the specification, to be compared with
  what the handler computes: the \<^verbatim>\<open>Date\<close> constructor reads a date-only string such as
  \<^verbatim>\<open>2030-01-07\<close> as midnight UTC of that day, so the calendar day of the time value is its
  day in UTC, and 1 January 1970 was a Thursday. 0 is Sunday.
\<close>

definition calendar_weekday :: "date \<Rightarrow> int" where
  "calendar_weekday t = (t div 86400000 + 4) mod 7"

definition startHour :: nat where "startHour = 9"
definition endHour :: nat where "endHour = 18"

definition slot_time :: "nat \<Rightarrow> nat \<Rightarrow> string" where
  "slot_time hour minute =
     padStart 2 CHR ''0'' (toString hour) @ '':'' @ padStart 2 CHR ''0'' (toString minute)"

function minute_loop :: "string list \<Rightarrow> nat \<Rightarrow> nat \<Rightarrow> string list \<Rightarrow> string list" where
  "minute_loop bookedTimes hour minute availableSlots =
     (if minute < 60
      then let time = slot_time hour minute
           in minute_loop bookedTimes hour (minute + 30)
                (if time \<notin> set bookedTimes then availableSlots @ [time] else availableSlots)
      else availableSlots)"
  by pat_completeness auto
termination
  by (relation "measure (\<lambda>(bt, h, m, a). 60 - m)") auto

function hour_loop :: "string list \<Rightarrow> nat \<Rightarrow> string list \<Rightarrow> string list" where
  "hour_loop bookedTimes hour availableSlots =
     (if hour < endHour
      then hour_loop bookedTimes (hour + 1) (minute_loop bookedTimes hour 0 availableSlots)
      else availableSlots)"
  by pat_completeness auto
termination
  by (relation "measure (\<lambda>(bt, h, a). endHour - h)") auto

text \<open>The candidate slots of an open day: what the loops produce when nothing is booked.\<close>

definition grid :: "string list" where
  "grid = hour_loop [] startHour []"

text \<open>
  \<^verbatim>\<open>router.get('/available-slots/:date')\<close>. The service id of the query string may be
  absent; an empty one is falsy as well. A date that does not parse gives an invalid
  \<^verbatim>\<open>Date\<close>, whose weekday is \<^verbatim>\<open>NaN\<close>, and the query on it throws a cast error, which the
  handler's \<^verbatim>\<open>catch\<close> turns into the 500 response.
\<close>

definition available_slots ::
  "host \<Rightarrow> (objectId \<rightharpoonup> service_doc) \<Rightarrow> booking list \<Rightarrow> string \<Rightarrow> string option
     \<Rightarrow> error + string list" where
  "available_slots h services bookings date serviceId =
     (case serviceId of
        None \<Rightarrow> Inl (ValidationError [''Service ID is required''])
      | Some sid \<Rightarrow>
          (if sid = [] then Inl (ValidationError [''Service ID is required''])
           else
             (case castObjectId h sid of
                None \<Rightarrow> Inl (ServerError ''Failed to fetch available slots'')
              | Some oid \<Rightarrow>
                  (case services oid of
                     None \<Rightarrow> Inl (NotFound ''Service not found'')
                   | Some svc \<Rightarrow>
                       (case newDate h date of
                          None \<Rightarrow> Inl (ServerError ''Failed to fetch available slots'')
                        | Some appointmentDate' \<Rightarrow>
                            (if getDay h appointmentDate' = 0 then Inr []
                             else
                               (let bookedSlots =
                                      filter (\<lambda>b. appointmentDate b = appointmentDate' \<and> active b)
                                        bookings;
                                    bookedTimes = map appointmentTime bookedSlots
                                in Inr (hour_loop bookedTimes startHour []))))))))"

section \<open>A worked example\<close>

text \<open>
  A server whose local time is UTC. Its \<^verbatim>\<open>Date\<close> constructor is given on three calendar
  dates (6 January 2030 is a Sunday) and on one date with a time of day, its ObjectId cast
  on the ids that occur below. The e-mail validator accepts what the schema's own pattern
  accepts.
\<close>

definition utc_host :: host where
  "utc_host =
     \<lparr>isEmail = test clientEmail_match,
      normalizeEmail = toLowerCase,
      isMongoId = (\<lambda>s. length s = 24 \<and> list_all (in_class
         [(CHR ''0'', CHR ''9''), (CHR ''a'', CHR ''f''), (CHR ''A'', CHR ''F'')]) s),
      isISO8601 = (\<lambda>s. s \<in> set [''2030-01-06'', ''2030-01-07'', ''2030-01-08'',
                                  ''2030-01-07T10:00:00.000Z'']),
      newDate = map_of [(''2030-01-06'', 1893888000000), (''2030-01-07'', 1893974400000),
                        (''2030-01-08'', 1894060800000),
                        (''2030-01-07T10:00:00.000Z'', 1894010400000)],
      localTZA = (\<lambda>t. 0),
      castObjectId = map_of [(''65a000000000000000000001'', 1), (''65b000000000000000000001'', 101),
                             (''65b000000000000000000002'', 102)]\<rparr>"

text \<open>
  The same server five hours behind UTC (New York in winter). The \<^verbatim>\<open>Date\<close> constructor
  reads the strings above as the same time values there: a date-only string is midnight
  UTC whatever the local time zone is.
\<close>

definition ny_host :: host where
  "ny_host = utc_host\<lparr>localTZA := (\<lambda>t. - 18000000)\<rparr>"

definition haircut :: service_doc where
  "haircut = \<lparr>name = ''Haircut'', price = 50, duration = ''45 min'', category = ''Hair''\<rparr>"

definition catalog :: "objectId \<rightharpoonup> service_doc" where
  "catalog = [1 \<mapsto> haircut]"

definition request :: "string \<Rightarrow> string \<Rightarrow> body" where
  "request date time =
     \<lparr>req_clientName = ''Ann Lee'', req_clientEmail = ''Ann.Lee@example.com'',
      req_clientPhone = ''0123456789'', req_service = ''65a000000000000000000001'',
      req_appointmentDate = date, req_appointmentTime = time, req_notes = None\<rparr>"

text \<open>The booking that \<^const>\<open>request\<close> creates, with the given id, date, time and status.\<close>

definition ann :: "objectId \<Rightarrow> date \<Rightarrow> string \<Rightarrow> string \<Rightarrow> date \<Rightarrow> booking" where
  "ann i d time st stamp =
     \<lparr>booking_id = i, clientName = ''Ann Lee'', clientEmail = ''ann.lee@example.com'',
      clientPhone = ''0123456789'', service = 1, serviceName = ''Haircut'', servicePrice = 50,
      serviceDuration = ''45 min'', serviceCategory = ''Hair'', appointmentDate = d,
      appointmentTime = time, notes' = ''No special requests'', status = st, totalAmount = 50,
      paymentStatus = ''pending'', createdAt = 1890000000000, updatedAt = stamp\<rparr>"


section \<open>The matcher decides the language\<close>

lemma nullable_lang: "nullable r \<longleftrightarrow> [] \<in> lang r"
  by (induction r) (auto simp: conc_def intro: star.none)

lemma conc_Cons:
  "c # w \<in> conc A B \<longleftrightarrow>
     (\<exists>u v. w = u @ v \<and> c # u \<in> A \<and> v \<in> B) \<or> ([] \<in> A \<and> c # w \<in> B)"
  unfolding conc_def
  by (auto simp: Cons_eq_append_conv)

lemma star_Cons_D:
  assumes "x \<in> star A" and "x = c # w"
  shows "\<exists>u v. w = u @ v \<and> c # u \<in> A \<and> v \<in> star A"
  using assms
proof (induction arbitrary: w rule: star.induct)
  case none
  then show ?case by simp
next
  case (more u v)
  show ?case
  proof (cases u)
    case Nil
    with more show ?thesis by simp
  next
    case (Cons a u')
    with more.prems more.hyps show ?thesis by auto
  qed
qed

lemma star_Cons:
  "c # w \<in> star A \<longleftrightarrow> (\<exists>u v. w = u @ v \<and> c # u \<in> A \<and> v \<in> star A)"
proof
  assume "c # w \<in> star A"
  then show "\<exists>u v. w = u @ v \<and> c # u \<in> A \<and> v \<in> star A"
    by (rule star_Cons_D) simp
next
  assume "\<exists>u v. w = u @ v \<and> c # u \<in> A \<and> v \<in> star A"
  then obtain u v where "w = u @ v" "c # u \<in> A" "v \<in> star A" by blast
  then show "c # w \<in> star A"
    using star.more [of "c # u" A v] by simp
qed

lemma pderiv_lang: "(\<exists>r' \<in> set (pderiv c r). w \<in> lang r') \<longleftrightarrow> c # w \<in> lang r"
proof (induction r arbitrary: w)
  case (Then r s)
  have "(\<exists>r' \<in> set (pderiv c (Then r s)). w \<in> lang r') \<longleftrightarrow>
      (\<exists>r' \<in> set (pderiv c r). w \<in> conc (lang r') (lang s)) \<or>
      (nullable r \<and> (\<exists>r' \<in> set (pderiv c s). w \<in> lang r'))"
    by (auto simp: image_iff Bex_def)
  also have "\<dots> \<longleftrightarrow>
      (\<exists>u v. w = u @ v \<and> (\<exists>r' \<in> set (pderiv c r). u \<in> lang r') \<and> v \<in> lang s) \<or>
      ([] \<in> lang r \<and> c # w \<in> lang s)"
    by (auto simp: conc_def nullable_lang Then.IH(2))
  also have "\<dots> \<longleftrightarrow> c # w \<in> lang (Then r s)"
    by (simp add: conc_Cons Then.IH(1))
  finally show ?case .
next
  case (Many r)
  have "(\<exists>r' \<in> set (pderiv c (Many r)). w \<in> lang r') \<longleftrightarrow>
      (\<exists>r' \<in> set (pderiv c r). w \<in> conc (lang r') (star (lang r)))"
    by (auto simp: image_iff Bex_def)
  also have "\<dots> \<longleftrightarrow>
      (\<exists>u v. w = u @ v \<and> (\<exists>r' \<in> set (pderiv c r). u \<in> lang r') \<and> v \<in> star (lang r))"
    by (auto simp: conc_def)
  also have "\<dots> \<longleftrightarrow> c # w \<in> lang (Many r)"
    by (simp add: star_Cons Many.IH)
  finally show ?case .
next
  case (Or r s)
  from Or.IH(1) [of w] Or.IH(2) [of w] show ?case
    by (auto simp: bex_Un)
qed auto

lemma step_lang: "(\<exists>r' \<in> set (step c rs). w \<in> lang r') \<longleftrightarrow> (\<exists>r \<in> set rs. c # w \<in> lang r)"
  by (auto simp: step_def pderiv_lang [symmetric])

lemma steps_lang:
  "(\<exists>r' \<in> set (foldl (\<lambda>rs c. step c rs) rs s). w \<in> lang r') \<longleftrightarrow> (\<exists>r \<in> set rs. s @ w \<in> lang r)"
proof (induction s arbitrary: rs)
  case Nil
  show ?case by simp
next
  case (Cons c s)
  show ?case by (simp add: Cons.IH step_lang)
qed

lemma test_lang: "test r s \<longleftrightarrow> s \<in> lang r"
  using steps_lang [of "[r]" s "[]"] by (simp add: test_def list_ex_iff nullable_lang)

text \<open>
  The strings that the time validator accepts: an hour from 0 to 23 written with one or two
  digits, a colon, and a minute from 00 to 59 written with two digits.
\<close>

lemma in_class_single: "in_class [(c, c)] x \<longleftrightarrow> x = c"
  by (auto simp: in_class_def)

lemma conc_Un_left: "conc (A \<union> B) C = conc A C \<union> conc B C"
  by (auto simp: conc_def)

lemma conc_assoc: "conc (conc A B) C = conc A (conc B C)"
  unfolding conc_def
proof (intro set_eqI iffI; clarify)
  fix u v w
  assume "u \<in> A" "v \<in> B" "w \<in> C"
  then show "\<exists>x y. (u @ v) @ w = x @ y \<and> x \<in> A \<and> y \<in> {u @ v |u v. u \<in> B \<and> v \<in> C}"
    by (intro exI [of _ u] exI [of _ "v @ w"]) auto
  from \<open>u \<in> A\<close> \<open>v \<in> B\<close> \<open>w \<in> C\<close>
  show "\<exists>x y. u @ v @ w = x @ y \<and> x \<in> {u @ v |u v. u \<in> A \<and> v \<in> B} \<and> y \<in> C"
    by (intro exI [of _ "u @ v"] exI [of _ w]) auto
qed

lemma conc_insert_eps: "conc (insert [] A) B = conc A B \<union> B"
  by (auto simp: conc_def)

lemma mem_conc_Class:
  "w \<in> conc (lang (Class rs)) B \<longleftrightarrow> (\<exists>c v. w = c # v \<and> in_class rs c \<and> v \<in> B)"
proof
  assume "w \<in> conc (lang (Class rs)) B"
  then show "\<exists>c v. w = c # v \<and> in_class rs c \<and> v \<in> B"
    by (auto simp: conc_def)
next
  assume "\<exists>c v. w = c # v \<and> in_class rs c \<and> v \<in> B"
  then obtain c v where "w = [c] @ v" "[c] \<in> lang (Class rs)" "v \<in> B"
    by auto
  then show "w \<in> conc (lang (Class rs)) B"
    unfolding conc_def by blast
qed

lemma mem_lang_Class: "w \<in> lang (Class rs) \<longleftrightarrow> (\<exists>c. w = [c] \<and> in_class rs c)"
  by auto

lemma two_then_tail:
  "(\<exists>g v. s = g # v \<and> P g \<and> (\<exists>h w. v = h # w \<and> Q h \<and>
      (\<exists>m n. w = [c, m, n] \<and> M m \<and> N n))) \<longleftrightarrow>
   (\<exists>g h m n. s = [g, h, c, m, n] \<and> P g \<and> Q h \<and> M m \<and> N n)"
  by auto

lemma one_then_tail:
  "(\<exists>h w. s = h # w \<and> Q h \<and> (\<exists>m n. w = [c, m, n] \<and> M m \<and> N n)) \<longleftrightarrow>
   (\<exists>h m n. s = [h, c, m, n] \<and> Q h \<and> M m \<and> N n)"
  by auto

lemma appointmentTime_pattern_iff:
  "test appointmentTime_pattern s \<longleftrightarrow>
     (\<exists>h m n. s = [h, CHR '':'', m, n] \<and> in_class [(CHR ''0'', CHR ''9'')] h \<and>
        in_class [(CHR ''0'', CHR ''5'')] m \<and> in_class [(CHR ''0'', CHR ''9'')] n) \<or>
     (\<exists>g h m n. s = [g, h, CHR '':'', m, n] \<and>
        (in_class [(CHR ''0'', CHR ''1'')] g \<and> in_class [(CHR ''0'', CHR ''9'')] h \<or>
         g = CHR ''2'' \<and> in_class [(CHR ''0'', CHR ''3'')] h) \<and>
        in_class [(CHR ''0'', CHR ''5'')] m \<and> in_class [(CHR ''0'', CHR ''9'')] n)"
proof -
  define T where "T = conc (lang (Class [(CHR '':'', CHR '':'')]))
    (conc (lang (Class [(CHR ''0'', CHR ''5'')])) (lang (Class [(CHR ''0'', CHR ''9'')])))"
  have tail: "w \<in> T \<longleftrightarrow>
      (\<exists>m n. w = [CHR '':'', m, n] \<and> in_class [(CHR ''0'', CHR ''5'')] m \<and>
         in_class [(CHR ''0'', CHR ''9'')] n)" for w
    unfolding T_def
    by (auto simp: mem_conc_Class mem_lang_Class in_class_single simp del: lang.simps(3))
  have "lang appointmentTime_pattern =
      conc (lang (Class [(CHR ''0'', CHR ''1'')])) (conc (lang (Class [(CHR ''0'', CHR ''9'')])) T) \<union>
      conc (lang (Class [(CHR ''0'', CHR ''9'')])) T \<union>
      conc (lang (Class [(CHR ''2'', CHR ''2'')])) (conc (lang (Class [(CHR ''0'', CHR ''3'')])) T)"
    unfolding T_def
    by (simp add: appointmentTime_pattern_def opt_def lit_def conc_Un_left conc_assoc
        conc_insert_eps Un_ac del: lang.simps(3))
  then have "s \<in> lang appointmentTime_pattern \<longleftrightarrow>
      (\<exists>g v. s = g # v \<and> in_class [(CHR ''0'', CHR ''1'')] g \<and>
         (\<exists>h w. v = h # w \<and> in_class [(CHR ''0'', CHR ''9'')] h \<and> w \<in> T)) \<or>
      (\<exists>h w. s = h # w \<and> in_class [(CHR ''0'', CHR ''9'')] h \<and> w \<in> T) \<or>
      (\<exists>g v. s = g # v \<and> g = CHR ''2'' \<and>
         (\<exists>h w. v = h # w \<and> in_class [(CHR ''0'', CHR ''3'')] h \<and> w \<in> T))"
    by (simp only: Un_iff mem_conc_Class in_class_single disj_assoc)
  also have "(\<exists>g v. s = g # v \<and> in_class [(CHR ''0'', CHR ''1'')] g \<and>
         (\<exists>h w. v = h # w \<and> in_class [(CHR ''0'', CHR ''9'')] h \<and> w \<in> T)) \<longleftrightarrow>
      (\<exists>g h m n. s = [g, h, CHR '':'', m, n] \<and> in_class [(CHR ''0'', CHR ''1'')] g \<and>
         in_class [(CHR ''0'', CHR ''9'')] h \<and> in_class [(CHR ''0'', CHR ''5'')] m \<and>
         in_class [(CHR ''0'', CHR ''9'')] n)"
    unfolding tail by (rule two_then_tail)
  also have "(\<exists>h w. s = h # w \<and> in_class [(CHR ''0'', CHR ''9'')] h \<and> w \<in> T) \<longleftrightarrow>
      (\<exists>h m n. s = [h, CHR '':'', m, n] \<and> in_class [(CHR ''0'', CHR ''9'')] h \<and>
         in_class [(CHR ''0'', CHR ''5'')] m \<and> in_class [(CHR ''0'', CHR ''9'')] n)"
    unfolding tail by (rule one_then_tail)
  also have "(\<exists>g v. s = g # v \<and> g = CHR ''2'' \<and>
         (\<exists>h w. v = h # w \<and> in_class [(CHR ''0'', CHR ''3'')] h \<and> w \<in> T)) \<longleftrightarrow>
      (\<exists>g h m n. s = [g, h, CHR '':'', m, n] \<and> g = CHR ''2'' \<and>
         in_class [(CHR ''0'', CHR ''3'')] h \<and> in_class [(CHR ''0'', CHR ''5'')] m \<and>
         in_class [(CHR ''0'', CHR ''9'')] n)"
    unfolding tail by (rule two_then_tail)
  finally show ?thesis
    unfolding test_lang by blast
qed

section \<open>The slot grid\<close>

declare minute_loop.simps [simp del] hour_loop.simps [simp del] toString.simps [simp del]

lemma minute_loop_from_0:
  "minute_loop bt hour 0 acc =
     acc @ filter (\<lambda>t. t \<notin> set bt) [slot_time hour 0, slot_time hour 30]"
proof -
  have "minute_loop bt hour 60 a = a" for a
    by (subst minute_loop.simps) simp
  then have "minute_loop bt hour 30 a = a @ filter (\<lambda>t. t \<notin> set bt) [slot_time hour 30]" for a
    by (subst minute_loop.simps) (simp add: Let_def)
  then show ?thesis
    by (subst minute_loop.simps) (simp add: Let_def)
qed

lemma hour_loop_from:
  "hour \<le> endHour \<Longrightarrow>
   hour_loop bt hour acc =
     acc @ filter (\<lambda>t. t \<notin> set bt)
             (concat (map (\<lambda>h. [slot_time h 0, slot_time h 30]) [hour..<endHour]))"
proof (induction "endHour - hour" arbitrary: hour acc)
  case 0
  then show ?case by (subst hour_loop.simps) simp
next
  case (Suc k)
  then have lt: "hour < endHour" and k: "k = endHour - Suc hour" by auto
  have "hour_loop bt hour acc = hour_loop bt (Suc hour) (minute_loop bt hour 0 acc)"
    using lt by (subst hour_loop.simps) simp
  also have "\<dots> = (acc @ filter (\<lambda>t. t \<notin> set bt) [slot_time hour 0, slot_time hour 30]) @
      filter (\<lambda>t. t \<notin> set bt)
        (concat (map (\<lambda>h. [slot_time h 0, slot_time h 30]) [Suc hour..<endHour]))"
    using Suc.hyps(1)[OF k] lt by (simp add: minute_loop_from_0)
  also have "\<dots> = acc @ filter (\<lambda>t. t \<notin> set bt)
      (concat (map (\<lambda>h. [slot_time h 0, slot_time h 30]) [hour..<endHour]))"
    using lt by (simp add: upt_conv_Cons)
  finally show ?case .
qed

lemma all_slots:
  "concat (map (\<lambda>h. [slot_time h 0, slot_time h 30]) [startHour..<endHour]) =
     [''09:00'', ''09:30'', ''10:00'', ''10:30'', ''11:00'', ''11:30'', ''12:00'', ''12:30'',
      ''13:00'', ''13:30'', ''14:00'', ''14:30'', ''15:00'', ''15:30'', ''16:00'', ''16:30'',
      ''17:00'', ''17:30'']"
  by (simp add: startHour_def endHour_def upt_rec slot_time_def padStart_def toString.simps
      digit_def)

lemma grid_eq:
  "grid = [''09:00'', ''09:30'', ''10:00'', ''10:30'', ''11:00'', ''11:30'', ''12:00'', ''12:30'',
      ''13:00'', ''13:30'', ''14:00'', ''14:30'', ''15:00'', ''15:30'', ''16:00'', ''16:30'',
      ''17:00'', ''17:30'']"
  unfolding grid_def using hour_loop_from [of startHour "[]" "[]"] all_slots
  by (simp add: startHour_def endHour_def)

lemma hour_loop_grid: "hour_loop bt startHour [] = filter (\<lambda>t. t \<notin> set bt) grid"
  using hour_loop_from [of startHour bt "[]"] hour_loop_from [of startHour "[]" "[]"]
  by (simp add: grid_def startHour_def endHour_def)

lemma grid_steps:
  "grid = map (\<lambda>i. slot_time ((540 + 30 * i) div 60) ((540 + 30 * i) mod 60)) [0..<18]"
  by (simp add: grid_eq upt_rec slot_time_def padStart_def toString.simps digit_def)

text \<open>The query of the handler, once the service and the date are resolved.\<close>

lemma available_slots_resolved:
  assumes "sid \<noteq> []" "castObjectId h sid = Some oid" "services oid = Some svc"
    "newDate h date = Some d"
  shows "available_slots h services bookings date (Some sid) =
     (if getDay h d = 0 then Inr []
      else Inr (filter (\<lambda>t. t \<notin> set (map appointmentTime
                  (filter (\<lambda>b. appointmentDate b = d \<and> active b) bookings))) grid))"
  using assms by (simp add: available_slots_def Let_def hour_loop_grid)

section \<open>Availability on open and closed days\<close>

text \<open>
  The two branches of the handler after its test for Sunday, in the handler's own terms:
  the weekday is the one that \<^const>\<open>getDay\<close> finds for the parsed date.
\<close>

lemma open_branch_without_bookings:
  assumes "sid \<noteq> []" and "castObjectId h sid = Some oid" and "services oid = Some svc"
    and "newDate h date = Some d" and "getDay h d \<noteq> 0"
    and "\<forall>b \<in> set bookings. appointmentDate b = d \<longrightarrow> \<not> active b"
  shows "available_slots h services bookings date (Some sid) = Inr grid \<and>
    grid = [''09:00'', ''09:30'', ''10:00'', ''10:30'', ''11:00'', ''11:30'', ''12:00'', ''12:30'',
      ''13:00'', ''13:30'', ''14:00'', ''14:30'', ''15:00'', ''15:30'', ''16:00'', ''16:30'',
      ''17:00'', ''17:30''] \<and>
    length grid = 18 \<and>
    grid = map (\<lambda>i. slot_time ((540 + 30 * i) div 60) ((540 + 30 * i) mod 60)) [0..<18] \<and>
    sorted_wrt (<) grid \<and> distinct grid"
proof -
  have "filter (\<lambda>b. appointmentDate b = d \<and> active b) bookings = []"
    using assms(6) by (auto simp: filter_empty_conv)
  then have "available_slots h services bookings date (Some sid) = Inr grid"
    using assms(1-5) by (simp add: available_slots_resolved)
  moreover have "length grid = 18" "sorted_wrt (<) grid" "distinct grid"
    by (simp_all add: grid_eq)
  ultimately show ?thesis
    using grid_eq grid_steps by simp
qed

lemma closed_branch_is_empty:
  assumes "sid \<noteq> []" and "castObjectId h sid = Some oid" and "services oid = Some svc"
    and "newDate h date = Some d" and "getDay h d = 0"
  shows "available_slots h services bookings date (Some sid) = Inr []"
  using assms by (simp add: available_slots_resolved)

text \<open>
  The weekday of the handler against the weekday of the calendar date. For a date-only
  string the parsed date is midnight UTC of the day. On a server at UTC or ahead of it (by
  less than a day) the local weekday of that instant is the weekday of the date; on a
  server behind UTC it is the weekday of the day before.
\<close>

lemma getDay_calendar:
  assumes "0 \<le> localTZA h (day * 86400000)" and "localTZA h (day * 86400000) < 86400000"
  shows "getDay h (day * 86400000) = calendar_weekday (day * 86400000)"
proof -
  have "(day * 86400000 + localTZA h (day * 86400000)) div 86400000 = day"
    using assms by (simp add: div_pos_pos_trivial)
  then show ?thesis
    by (simp add: getDay_def calendar_weekday_def)
qed

lemma getDay_behind_utc:
  assumes "- 86400000 \<le> localTZA h (day * 86400000)" and "localTZA h (day * 86400000) < 0"
  shows "getDay h (day * 86400000) = calendar_weekday ((day - 1) * 86400000)"
proof -
  have "(day * 86400000 + localTZA h (day * 86400000)) div 86400000 = day - 1"
    using assms
    by (intro int_div_pos_eq [where r = "86400000 + localTZA h (day * 86400000)"])
      (auto simp: algebra_simps)
  then show ?thesis
    by (simp add: getDay_def calendar_weekday_def)
qed

text \<open>
  So on a server at or ahead of UTC the handler opens and closes the days that the
  calendar says, for every date given as a date-only string.
\<close>

lemma open_weekday_ahead_of_utc:
  assumes "sid \<noteq> []" and "castObjectId h sid = Some oid" and "services oid = Some svc"
    and "newDate h date = Some (day * 86400000)"
    and "0 \<le> localTZA h (day * 86400000)" and "localTZA h (day * 86400000) < 86400000"
    and "calendar_weekday (day * 86400000) \<noteq> 0"
    and "\<forall>b \<in> set bookings. appointmentDate b = day * 86400000 \<longrightarrow> \<not> active b"
  shows "available_slots h services bookings date (Some sid) = Inr grid"
proof -
  from getDay_calendar [OF assms(5,6)] assms(7) have "getDay h (day * 86400000) \<noteq> 0"
    by simp
  with assms(1-4,8) show ?thesis
    by (simp add: available_slots_resolved filter_empty_conv)
qed

lemma sunday_ahead_of_utc:
  assumes "sid \<noteq> []" and "castObjectId h sid = Some oid" and "services oid = Some svc"
    and "newDate h date = Some (day * 86400000)"
    and "0 \<le> localTZA h (day * 86400000)" and "localTZA h (day * 86400000) < 86400000"
    and "calendar_weekday (day * 86400000) = 0"
  shows "available_slots h services bookings date (Some sid) = Inr []"
proof -
  from getDay_calendar [OF assms(5,6)] assms(7) have "getDay h (day * 86400000) = 0"
    by simp
  with assms(1-4) show ?thesis
    by (simp add: available_slots_resolved)
qed

text \<open>
  Claim C3. On a date on an open weekday with no pending or confirmed booking the
  availability query should return the 18 slots from 09:00 to 17:30. The handler, whose
  comment says that the salon is open Monday to Saturday, takes the weekday from
  \<^verbatim>\<open>getDay\<close>, the local weekday of the parsed date. On a server behind UTC that is the
  weekday of the day before: for Monday 7 January 2030, with no booking at all, the handler
  finds a Sunday and returns no slot.
\<close>

theorem monday_closed_behind_utc:
  "newDate ny_host ''2030-01-07'' = Some 1893974400000 \<and>
   calendar_weekday 1893974400000 = 1 \<and>
   getDay ny_host 1893974400000 = 0 \<and>
   available_slots ny_host catalog [] ''2030-01-07'' (Some ''65a000000000000000000001'') = Inr []"
  by (simp add: ny_host_def utc_host_def catalog_def calendar_weekday_def getDay_def
      available_slots_def)

text \<open>
  Claim C4. On a date whose weekday is Sunday the availability query should return the
  empty sequence, whatever bookings the collection holds. By the same reading of the
  weekday, on a server behind UTC the handler takes Sunday 6 January 2030 for a Saturday
  and returns all 18 slots.
\<close>

theorem sunday_open_behind_utc:
  "newDate ny_host ''2030-01-06'' = Some 1893888000000 \<and>
   calendar_weekday 1893888000000 = 0 \<and>
   getDay ny_host 1893888000000 = 6 \<and>
   available_slots ny_host catalog [] ''2030-01-06'' (Some ''65a000000000000000000001'') =
     Inr [''09:00'', ''09:30'', ''10:00'', ''10:30'', ''11:00'', ''11:30'', ''12:00'', ''12:30'',
       ''13:00'', ''13:30'', ''14:00'', ''14:30'', ''15:00'', ''15:30'', ''16:00'', ''16:30'',
       ''17:00'', ''17:30'']"
  by (simp add: ny_host_def utc_host_def catalog_def calendar_weekday_def getDay_def
      available_slots_def hour_loop_grid grid_eq)

section \<open>Facts about the collection\<close>

lemma findById_None_iff: "findById i bs = None \<longleftrightarrow> i \<notin> booking_id ` set bs"
  by (auto simp: findById_def find_None_iff)

lemma findById_SomeD: "findById i bs = Some b \<Longrightarrow> b \<in> set bs \<and> booking_id b = i"
  by (auto simp: findById_def find_Some_iff)

lemma length_updateOne: "length (updateOne i doc bs) = length bs"
  by (induction bs) auto

lemma ids_updateOne:
  "booking_id doc = i \<Longrightarrow> map booking_id (updateOne i doc bs) = map booking_id bs"
  by (induction bs) auto

lemma findById_updateOne:
  "findById i bs = Some b \<Longrightarrow> booking_id doc = i \<Longrightarrow> findById i (updateOne i doc bs) = Some doc"
  by (induction bs) (auto simp: findById_def)

lemma findById_updateOne_other:
  "j \<noteq> i \<Longrightarrow> booking_id doc = i \<Longrightarrow> findById j (updateOne i doc bs) = findById j bs"
  by (induction bs) (auto simp: findById_def)

lemma map_updateOne:
  "findById i bs = Some b \<Longrightarrow> f doc = f b \<Longrightarrow> map f (updateOne i doc bs) = map f bs"
  by (induction bs) (auto simp: findById_def split: if_splits)

lemma set_updateOne:
  "findById i bs = Some b \<Longrightarrow> distinct (map booking_id bs) \<Longrightarrow>
   set (updateOne i doc bs) = insert doc (set bs - {b})"
proof (induction bs)
  case Nil
  then show ?case by (simp add: findById_def)
next
  case (Cons a bs)
  show ?case
  proof (cases "booking_id a = i")
    case True
    with Cons.prems have "a = b" by (simp add: findById_def)
    moreover from Cons.prems(2) have "a \<notin> set bs" by auto
    ultimately show ?thesis using True by auto
  next
    case False
    with Cons.prems have f: "findById i bs = Some b" and d: "distinct (map booking_id bs)"
      by (simp_all add: findById_def)
    from findById_SomeD [OF f] False have "a \<noteq> b" by auto
    with Cons.IH [OF f d] False show ?thesis by auto
  qed
qed

section \<open>What Cancel and Create return\<close>

lemma Cancel_store_cases:
  "fst (snd (Cancel h now bs id')) = bs \<or>
   (\<exists>i b. castObjectId h id' = Some i \<and> findById i bs = Some b \<and>
      fst (snd (Cancel h now bs id')) = updateOne i (pre_save now (b\<lparr>status := ''cancelled''\<rparr>)) bs)"
  by (auto simp: Cancel_def save_def Let_def pre_save_def dest: findById_SomeD
      split: option.splits)

lemma Cancel_InrD:
  assumes "Cancel h now bs id' = (Inr b', bs', out)"
  shows "\<exists>i b. castObjectId h id' = Some i \<and> findById i bs = Some b \<and>
    status b \<noteq> ''cancelled'' \<and> status b \<noteq> ''completed'' \<and>
    bookingSchema_validate now (b\<lparr>status := ''cancelled''\<rparr>) \<and>
    b' = pre_save now (b\<lparr>status := ''cancelled''\<rparr>) \<and> bs' = updateOne i b' bs \<and> out = []"
  using assms
  by (auto simp: Cancel_def save_def Let_def pre_save_def dest: findById_SomeD
      split: option.splits if_splits)

lemma Cancel_ok:
  assumes "castObjectId h id' = Some i" "findById i bs = Some b"
    "status b \<noteq> ''cancelled''" "status b \<noteq> ''completed''"
    "bookingSchema_validate now (b\<lparr>status := ''cancelled''\<rparr>)"
  shows "Cancel h now bs id' =
    (Inr (pre_save now (b\<lparr>status := ''cancelled''\<rparr>)),
     updateOne i (pre_save now (b\<lparr>status := ''cancelled''\<rparr>)) bs, [])"
  using assms findById_SomeD [OF assms(2)]
  by (simp add: Cancel_def save_def Let_def pre_save_def)

lemma Create_InlD:
  "Create h now new_id send services bs req = (Inl e, bs', out) \<Longrightarrow> bs' = bs"
  by (auto simp: Create_def Let_def save_def split: option.splits if_splits)

lemma Create_InrD:
  assumes "Create h now new_id send services bs req = (Inr b, bs', out)"
  shows "validateBooking h now req = [] \<and>
    (\<exists>sid svc d. castObjectId h (req_service req) = Some sid \<and> services sid = Some svc \<and>
      newDate h (req_appointmentDate req) = Some d \<and>
      find (\<lambda>c. appointmentDate c = d \<and> appointmentTime c = trim (req_appointmentTime req) \<and> active c) bs = None \<and>
      bookingSchema_validate now (new_Booking now new_id sid svc d (sanitize h req)) \<and>
      findById new_id bs = None \<and>
      b = pre_save now (new_Booking now new_id sid svc d (sanitize h req)) \<and>
      bs' = bs @ [b] \<and>
      out = (if send b then [] else [''Failed to send confirmation email:'']))"
  using assms
  by (auto simp: Create_def Let_def save_def sanitize_def pre_save_def new_Booking_def
      split: option.splits if_splits)

section \<open>UpdateStatus\<close>

text \<open>
  Claim C7. UpdateStatus fails with InvalidArgument when the requested status is not one of
  pending, confirmed, completed, cancelled; fails with NotFound when no booking has the id;
  and otherwise sets the status to the requested value whatever the current status is,
  stores the changed booking under its id, leaves every other booking as it was, and
  returns the changed booking.
\<close>

theorem update_status_cases:
  "validStatuses = [''pending'', ''confirmed'', ''completed'', ''cancelled''] \<and>
   (status' \<notin> set validStatuses \<longrightarrow>
      UpdateStatus h now bs id' status' = (Inl InvalidArgument, bs, [])) \<and>
   (status' \<in> set validStatuses \<and> castObjectId h id' = Some i \<and> findById i bs = None \<longrightarrow>
      UpdateStatus h now bs id' status' = (Inl (NotFound ''Booking not found''), bs, [])) \<and>
   (status' \<in> set validStatuses \<and> castObjectId h id' = Some i \<and> findById i bs = Some b \<longrightarrow>
      UpdateStatus h now bs id' status' =
        (Inr (b\<lparr>status := status', updatedAt := now\<rparr>),
         updateOne i (b\<lparr>status := status', updatedAt := now\<rparr>) bs, []) \<and>
      findById i (updateOne i (b\<lparr>status := status', updatedAt := now\<rparr>) bs) =
        Some (b\<lparr>status := status', updatedAt := now\<rparr>) \<and>
      (\<forall>j. j \<noteq> i \<longrightarrow>
         findById j (updateOne i (b\<lparr>status := status', updatedAt := now\<rparr>) bs) = findById j bs))"
proof -
  have "findById i (updateOne i (b\<lparr>status := status', updatedAt := now\<rparr>) bs) =
      Some (b\<lparr>status := status', updatedAt := now\<rparr>)" if "findById i bs = Some b"
    using that findById_SomeD [OF that] by (simp add: findById_updateOne)
  moreover have "findById j (updateOne i (b\<lparr>status := status', updatedAt := now\<rparr>) bs) =
      findById j bs" if "findById i bs = Some b" "j \<noteq> i" for j
    using that findById_SomeD [OF that(1)] by (simp add: findById_updateOne_other)
  ultimately show ?thesis
    by (simp add: UpdateStatus_def Let_def validStatuses_def)
qed

theorem update_status_cases_witness:
  "UpdateStatus utc_host 1890000000000 [ann 101 1893974400000 ''10:00'' ''completed'' 0]
     ''65b000000000000000000001'' ''pending'' =
     (Inr (ann 101 1893974400000 ''10:00'' ''pending'' 1890000000000),
      [ann 101 1893974400000 ''10:00'' ''pending'' 1890000000000], []) \<and>
   UpdateStatus utc_host 1890000000000 [ann 101 1893974400000 ''10:00'' ''completed'' 0]
     ''65b000000000000000000002'' ''pending'' =
     (Inl (NotFound ''Booking not found''), [ann 101 1893974400000 ''10:00'' ''completed'' 0], []) \<and>
   UpdateStatus utc_host 1890000000000 [ann 101 1893974400000 ''10:00'' ''completed'' 0]
     ''65b000000000000000000001'' ''done'' =
     (Inl InvalidArgument, [ann 101 1893974400000 ''10:00'' ''completed'' 0], [])"
proof -
  let ?b = "ann 101 1893974400000 ''10:00'' ''completed'' 0"
  have v: "''pending'' \<in> set validStatuses" "''done'' \<notin> set validStatuses"
    by (simp_all add: validStatuses_def)
  have c: "castObjectId utc_host ''65b000000000000000000001'' = Some 101"
    "castObjectId utc_host ''65b000000000000000000002'' = Some 102"
    by (simp_all add: utc_host_def)
  have f: "findById 101 [?b] = Some ?b" "findById 102 [?b] = None"
    by (simp_all add: findById_def ann_def)
  have u: "?b\<lparr>status := ''pending'', updatedAt := 1890000000000\<rparr> =
      ann 101 1893974400000 ''10:00'' ''pending'' 1890000000000"
    by (simp add: ann_def)
  have i: "booking_id ?b = 101" by (simp add: ann_def)
  from update_status_cases [of "''pending''" utc_host 1890000000000 "[?b]"
      "''65b000000000000000000001''" 101 ?b] v c f
  have 1: "UpdateStatus utc_host 1890000000000 [?b] ''65b000000000000000000001'' ''pending'' =
      (Inr (?b\<lparr>status := ''pending'', updatedAt := 1890000000000\<rparr>),
       updateOne 101 (?b\<lparr>status := ''pending'', updatedAt := 1890000000000\<rparr>) [?b], [])"
    by blast
  from update_status_cases [of "''pending''" utc_host 1890000000000 "[?b]"
      "''65b000000000000000000002''" 102] v c f
  have 2: "UpdateStatus utc_host 1890000000000 [?b] ''65b000000000000000000002'' ''pending'' =
      (Inl (NotFound ''Booking not found''), [?b], [])"
    by blast
  from update_status_cases [of "''done''" utc_host 1890000000000 "[?b]"
      "''65b000000000000000000001''"] v
  have 3: "UpdateStatus utc_host 1890000000000 [?b] ''65b000000000000000000001'' ''done'' =
      (Inl InvalidArgument, [?b], [])"
    by blast
  from 1 2 3 show ?thesis by (simp add: u i)
qed

section \<open>Create: conflicts and validation\<close>

text \<open>
  Claim C1. When the collection holds a pending or confirmed booking at a date and time,
  Create for the same date and time fails and leaves the collection as it was; the failure
  is Conflict whenever the request passes validation and names an existing service, the
  two checks the handler makes before it looks for a conflict.
\<close>

theorem create_conflict:
  assumes "c \<in> set bs" and "active c"
    and "newDate h (req_appointmentDate req) = Some (appointmentDate c)"
    and "trim (req_appointmentTime req) = appointmentTime c"
  shows "(\<exists>e out. Create h now new_id send services bs req = (Inl e, bs, out)) \<and>
    (validateBooking h now req = [] \<and> castObjectId h (req_service req) = Some sid \<and>
     services sid = Some svc \<longrightarrow>
       Create h now new_id send services bs req = (Inl Conflict, bs, []))"
proof -
  have "find (\<lambda>x. appointmentDate x = appointmentDate c \<and>
      appointmentTime x = appointmentTime c \<and> active x) bs \<noteq> None"
    using assms(1,2) by (auto simp: find_None_iff)
  then obtain x where "find (\<lambda>x. appointmentDate x = appointmentDate c \<and>
      appointmentTime x = appointmentTime c \<and> active x) bs = Some x"
    by auto
  then show ?thesis
    using assms(3,4)
    by (auto simp: Create_def Let_def sanitize_def split: option.splits)
qed

theorem create_conflict_witness:
  "ann 101 1893974400000 ''10:00'' ''confirmed'' 0 \<in> set [ann 101 1893974400000 ''10:00'' ''confirmed'' 0] \<and>
   active (ann 101 1893974400000 ''10:00'' ''confirmed'' 0) \<and>
   newDate utc_host ''2030-01-07'' = Some 1893974400000 \<and>
   trim '' 10:00 '' = ''10:00'' \<and>
   Create utc_host 1890000000000 102 (\<lambda>_. True) catalog
     [ann 101 1893974400000 ''10:00'' ''confirmed'' 0] (request ''2030-01-07'' '' 10:00 '') =
     (Inl Conflict, [ann 101 1893974400000 ''10:00'' ''confirmed'' 0], [])"
proof -
  let ?c = "ann 101 1893974400000 ''10:00'' ''confirmed'' 0"
  let ?req = "request ''2030-01-07'' '' 10:00 ''"
  have a: "?c \<in> set [?c]" "active ?c"
    by (simp_all add: active_def ann_def)
  have d: "newDate utc_host (req_appointmentDate ?req) = Some (appointmentDate ?c)"
    by (simp add: utc_host_def request_def ann_def)
  have t: "trim (req_appointmentTime ?req) = appointmentTime ?c"
    by (simp add: trim_def isSpace_def request_def ann_def)
  have v: "validateBooking utc_host 1890000000000 ?req = []"
    by code_simp
  have s: "castObjectId utc_host (req_service ?req) = Some 1" "catalog 1 = Some haircut"
    by (simp_all add: utc_host_def request_def catalog_def)
  from create_conflict [where now = 1890000000000 and sid = 1 and services = catalog
      and svc = haircut and new_id = 102 and send = "\<lambda>_. True", OF a d t] v s
  have "Create utc_host 1890000000000 102 (\<lambda>_. True) catalog [?c] ?req = (Inl Conflict, [?c], [])"
    by blast
  with a d t show ?thesis
    by (simp add: request_def ann_def)
qed

text \<open>
  Claim C8. Create fails with ValidationError when the appointment date is not later than
  now (or is no date at all), and when the appointment time, trimmed, does not match the
  pattern of the time validator. The pattern rejects 25:00 and 9:60 and accepts 09:00 and
  23:59; what it accepts is an hour from 0 to 23 in one or two digits, a colon and a minute
  from 00 to 59 in two digits.
\<close>

theorem create_validation:
  "(newDate h (req_appointmentDate req) = None \<or>
    (\<exists>d. newDate h (req_appointmentDate req) = Some d \<and> d \<le> now) \<longrightarrow>
      (\<exists>errors. Create h now new_id send services bs req = (Inl (ValidationError errors), bs, []) \<and>
         ''Appointment date must be in the future'' \<in> set errors)) \<and>
   (\<not> test appointmentTime_pattern (trim (req_appointmentTime req)) \<longrightarrow>
      (\<exists>errors. Create h now new_id send services bs req = (Inl (ValidationError errors), bs, []) \<and>
         ''Please provide a valid time in HH:MM format'' \<in> set errors)) \<and>
   (test appointmentTime_pattern (trim (req_appointmentTime req)) \<longrightarrow>
      ''Please provide a valid time in HH:MM format'' \<notin> set (validateBooking h now req)) \<and>
   \<not> test appointmentTime_pattern ''25:00'' \<and> \<not> test appointmentTime_pattern ''9:60'' \<and>
   test appointmentTime_pattern ''09:00'' \<and> test appointmentTime_pattern ''23:59'' \<and>
   (test appointmentTime_pattern s \<longleftrightarrow>
     (\<exists>h m n. s = [h, CHR '':'', m, n] \<and> in_class [(CHR ''0'', CHR ''9'')] h \<and>
        in_class [(CHR ''0'', CHR ''5'')] m \<and> in_class [(CHR ''0'', CHR ''9'')] n) \<or>
     (\<exists>g h m n. s = [g, h, CHR '':'', m, n] \<and>
        (in_class [(CHR ''0'', CHR ''1'')] g \<and> in_class [(CHR ''0'', CHR ''9'')] h \<or>
         g = CHR ''2'' \<and> in_class [(CHR ''0'', CHR ''3'')] h) \<and>
        in_class [(CHR ''0'', CHR ''5'')] m \<and> in_class [(CHR ''0'', CHR ''9'')] n))"
proof (intro conjI)
  have c: "Create h now new_id send services bs req =
      (Inl (ValidationError (validateBooking h now req)), bs, [])"
    if "validateBooking h now req \<noteq> []"
    using that by (simp add: Create_def Let_def)
  show "newDate h (req_appointmentDate req) = None \<or>
      (\<exists>d. newDate h (req_appointmentDate req) = Some d \<and> d \<le> now) \<longrightarrow>
        (\<exists>errors. Create h now new_id send services bs req = (Inl (ValidationError errors), bs, []) \<and>
           ''Appointment date must be in the future'' \<in> set errors)"
  proof
    assume "newDate h (req_appointmentDate req) = None \<or>
      (\<exists>d. newDate h (req_appointmentDate req) = Some d \<and> d \<le> now)"
    then have "''Appointment date must be in the future'' \<in> set (validateBooking h now req)"
      by (auto simp: validateBooking_def date_in_future_def)
    with c show "\<exists>errors. Create h now new_id send services bs req =
          (Inl (ValidationError errors), bs, []) \<and>
        ''Appointment date must be in the future'' \<in> set errors"
      by (metis empty_iff empty_set)
  qed
  show "\<not> test appointmentTime_pattern (trim (req_appointmentTime req)) \<longrightarrow>
      (\<exists>errors. Create h now new_id send services bs req = (Inl (ValidationError errors), bs, []) \<and>
         ''Please provide a valid time in HH:MM format'' \<in> set errors)"
  proof
    assume "\<not> test appointmentTime_pattern (trim (req_appointmentTime req))"
    then have "''Please provide a valid time in HH:MM format'' \<in> set (validateBooking h now req)"
      by (simp add: validateBooking_def)
    with c show "\<exists>errors. Create h now new_id send services bs req =
          (Inl (ValidationError errors), bs, []) \<and>
        ''Please provide a valid time in HH:MM format'' \<in> set errors"
      by (metis empty_iff empty_set)
  qed
  show "test appointmentTime_pattern (trim (req_appointmentTime req)) \<longrightarrow>
      ''Please provide a valid time in HH:MM format'' \<notin> set (validateBooking h now req)"
    by (auto simp: validateBooking_def split: option.splits)
  show "\<not> test appointmentTime_pattern ''25:00''" "\<not> test appointmentTime_pattern ''9:60''"
    "test appointmentTime_pattern ''09:00''" "test appointmentTime_pattern ''23:59''"
    by (simp_all add: test_def step_def appointmentTime_pattern_def opt_def lit_def in_class_def)
  show "test appointmentTime_pattern s \<longleftrightarrow>
     (\<exists>h m n. s = [h, CHR '':'', m, n] \<and> in_class [(CHR ''0'', CHR ''9'')] h \<and>
        in_class [(CHR ''0'', CHR ''5'')] m \<and> in_class [(CHR ''0'', CHR ''9'')] n) \<or>
     (\<exists>g h m n. s = [g, h, CHR '':'', m, n] \<and>
        (in_class [(CHR ''0'', CHR ''1'')] g \<and> in_class [(CHR ''0'', CHR ''9'')] h \<or>
         g = CHR ''2'' \<and> in_class [(CHR ''0'', CHR ''3'')] h) \<and>
        in_class [(CHR ''0'', CHR ''5'')] m \<and> in_class [(CHR ''0'', CHR ''9'')] n)"
    by (rule appointmentTime_pattern_iff)
qed

theorem create_validation_witness:
  "Create utc_host 1893974400000 101 (\<lambda>_. True) catalog [] (request ''2030-01-07'' ''09:00'') =
     (Inl (ValidationError [''Appointment date must be in the future'']), [], []) \<and>
   Create utc_host 1890000000000 101 (\<lambda>_. True) catalog [] (request ''2030-01-07'' ''25:00'') =
     (Inl (ValidationError [''Please provide a valid time in HH:MM format'']), [], []) \<and>
   validateBooking utc_host 1890000000000 (request ''2030-01-07'' ''09:00'') = []"
proof -
  let ?late = "Create utc_host 1893974400000 101 (\<lambda>_. True) catalog [] (request ''2030-01-07'' ''09:00'')"
  let ?bad = "Create utc_host 1890000000000 101 (\<lambda>_. True) catalog [] (request ''2030-01-07'' ''25:00'')"
  have d: "newDate utc_host (req_appointmentDate (request ''2030-01-07'' ''09:00'')) = Some 1893974400000"
    "(1893974400000 :: int) \<le> 1893974400000"
    by (simp_all add: utc_host_def request_def)
  have t: "\<not> test appointmentTime_pattern (trim (req_appointmentTime (request ''2030-01-07'' ''25:00'')))"
    by code_simp
  have t': "test appointmentTime_pattern (trim (req_appointmentTime (request ''2030-01-07'' ''09:00'')))"
    by code_simp
  from create_validation [where h = utc_host and now = 1893974400000 and new_id = 101
      and send = "\<lambda>_. True" and services = catalog and bs = "[]"
      and req = "request ''2030-01-07'' ''09:00''", THEN conjunct1] d
  obtain e1 where "?late = (Inl (ValidationError e1), [], [])"
    by blast
  moreover have "?late = (Inl (ValidationError [''Appointment date must be in the future'']), [], [])"
    by code_simp
  moreover
  from create_validation [where h = utc_host and now = 1890000000000 and new_id = 101
      and send = "\<lambda>_. True" and services = catalog and bs = "[]"
      and req = "request ''2030-01-07'' ''25:00''", THEN conjunct2, THEN conjunct1] t
  obtain e2 where "?bad = (Inl (ValidationError e2), [], [])"
    by blast
  moreover have "?bad = (Inl (ValidationError [''Please provide a valid time in HH:MM format'']), [], [])"
    by code_simp
  moreover
  from create_validation [where h = utc_host and now = 1890000000000
      and req = "request ''2030-01-07'' ''09:00''", THEN conjunct2, THEN conjunct2,
      THEN conjunct1] t'
  have "''Please provide a valid time in HH:MM format'' \<notin>
      set (validateBooking utc_host 1890000000000 (request ''2030-01-07'' ''09:00''))"
    by blast
  moreover have "validateBooking utc_host 1890000000000 (request ''2030-01-07'' ''09:00'') = []"
    by code_simp
  ultimately show ?thesis by simp
qed

section \<open>Create: the confirmation e-mail\<close>

text \<open>
  Claim C9. When Create persists the booking and the confirmation e-mail cannot be
  delivered, Create still succeeds: it returns the persisted booking and the same
  collection as with a delivered e-mail, and the failure is only written to the console.
  Neither the response nor the collection depends on the delivery.
\<close>

theorem notification_failure_absorbed:
  "fst (Create h now new_id send services bs req) = fst (Create h now new_id send' services bs req) \<and>
   fst (snd (Create h now new_id send services bs req)) =
     fst (snd (Create h now new_id send' services bs req)) \<and>
   (Create h now new_id (\<lambda>_. True) services bs req = (Inr booking, bs', out) \<and> \<not> send booking \<longrightarrow>
      Create h now new_id send services bs req =
        (Inr booking, bs', [''Failed to send confirmation email:'']) \<and>
      bs' = bs @ [booking])"
proof -
  have 1: "fst (Create h now new_id s services bs req) =
      fst (Create h now new_id s' services bs req) \<and>
    fst (snd (Create h now new_id s services bs req)) =
      fst (snd (Create h now new_id s' services bs req))" for s s'
    by (simp add: Create_def Let_def split: option.splits)
  have 2: "Create h now new_id send services bs req =
        (Inr booking, bs', [''Failed to send confirmation email:'']) \<and> bs' = bs @ [booking]"
    if c: "Create h now new_id (\<lambda>_. True) services bs req = (Inr booking, bs', out)"
      and n: "\<not> send booking"
  proof -
    from Create_InrD [OF c] have b: "bs' = bs @ [booking]" by blast
    from 1 [of send "\<lambda>_. True"] c
    have f: "fst (Create h now new_id send services bs req) = Inr booking"
      "fst (snd (Create h now new_id send services bs req)) = bs'"
      by simp_all
    obtain r st out' where e: "Create h now new_id send services bs req = (r, st, out')"
      by (cases "Create h now new_id send services bs req") auto
    with f have e': "Create h now new_id send services bs req = (Inr booking, bs', out')"
      by simp
    from Create_InrD [OF e'] n have "out' = [''Failed to send confirmation email:'']"
      by auto
    with e' b show ?thesis by simp
  qed
  from 1 2 show ?thesis by blast
qed

theorem notification_failure_absorbed_witness:
  "Create utc_host 1890000000000 101 (\<lambda>_. True) catalog [] (request ''2030-01-07'' ''10:00'') =
     (Inr (ann 101 1893974400000 ''10:00'' ''pending'' 1890000000000),
      [ann 101 1893974400000 ''10:00'' ''pending'' 1890000000000], []) \<and>
   Create utc_host 1890000000000 101 (\<lambda>_. False) catalog [] (request ''2030-01-07'' ''10:00'') =
     (Inr (ann 101 1893974400000 ''10:00'' ''pending'' 1890000000000),
      [ann 101 1893974400000 ''10:00'' ''pending'' 1890000000000],
      [''Failed to send confirmation email:''])"
proof -
  have c: "Create utc_host 1890000000000 101 (\<lambda>_. True) catalog [] (request ''2030-01-07'' ''10:00'') =
     (Inr (ann 101 1893974400000 ''10:00'' ''pending'' 1890000000000),
      [ann 101 1893974400000 ''10:00'' ''pending'' 1890000000000], [])"
    by code_simp
  from notification_failure_absorbed [where send = "\<lambda>_. False" and h = utc_host
      and now = 1890000000000 and new_id = 101 and services = catalog and bs = "[]"
      and req = "request ''2030-01-07'' ''10:00''"
      and booking = "ann 101 1893974400000 ''10:00'' ''pending'' 1890000000000"
      and bs' = "[ann 101 1893974400000 ''10:00'' ''pending'' 1890000000000]" and out = "[]"] c
  show ?thesis by simp
qed

section \<open>Off-grid times\<close>

lemma hour_loop_cong:
  assumes "\<And>t. t \<in> set grid \<Longrightarrow> t \<in> set bt \<longleftrightarrow> t \<in> set bt'"
  shows "hour_loop bt startHour [] = hour_loop bt' startHour []"
  using assms by (simp add: hour_loop_grid cong: filter_cong)

text \<open>
  Claim C10. A slot of the grid is left out of the result exactly when a pending or
  confirmed booking on that date has that very string as its time. The time validator
  also accepts 9:00 and 10:17, which are not strings of the grid, and a booking at a time
  that is not a string of the grid changes no availability result.
\<close>

theorem offgrid_booking_blocks_nothing:
  "test appointmentTime_pattern ''9:00'' \<and> test appointmentTime_pattern ''10:17'' \<and>
   ''9:00'' \<notin> set grid \<and> ''10:17'' \<notin> set grid \<and>
   (appointmentTime b \<notin> set grid \<longrightarrow>
      available_slots h services (front @ b # rest) date serviceId =
      available_slots h services (front @ rest) date serviceId) \<and>
   (available_slots h services bs date serviceId = Inr slots \<and> newDate h date = Some d \<and>
    getDay h d \<noteq> 0 \<longrightarrow>
      slots = filter (\<lambda>t. \<not> (\<exists>c \<in> set bs. appointmentDate c = d \<and> active c \<and>
                                appointmentTime c = t)) grid)"
proof -
  have p: "test appointmentTime_pattern ''9:00''" "test appointmentTime_pattern ''10:17''"
    by (simp_all add: test_def step_def appointmentTime_pattern_def opt_def lit_def in_class_def)
  have g: "''9:00'' \<notin> set grid" "''10:17'' \<notin> set grid"
    by (simp_all add: grid_eq)
  have e: "available_slots h services (front @ b # rest) date serviceId =
      available_slots h services (front @ rest) date serviceId"
    if "appointmentTime b \<notin> set grid"
  proof -
    have "hour_loop (map appointmentTime (filter (\<lambda>c. appointmentDate c = d \<and> active c) (front @ b # rest)))
          startHour [] =
        hour_loop (map appointmentTime (filter (\<lambda>c. appointmentDate c = d \<and> active c) (front @ rest)))
          startHour []" for d
      using that by (intro hour_loop_cong) auto
    then show ?thesis
      by (simp add: available_slots_def Let_def split: option.splits)
  qed
  have f: "slots = filter (\<lambda>t. \<not> (\<exists>c \<in> set bs. appointmentDate c = d \<and> active c \<and>
                                appointmentTime c = t)) grid"
    if "available_slots h services bs date serviceId = Inr slots" "newDate h date = Some d"
      "getDay h d \<noteq> 0"
  proof -
    have "(t \<notin> set (map appointmentTime (filter (\<lambda>c. appointmentDate c = d \<and> active c) bs))) =
        (\<not> (\<exists>c \<in> set bs. appointmentDate c = d \<and> active c \<and> appointmentTime c = t))" for t
      by auto
    with that show ?thesis
      by (auto simp: available_slots_def Let_def hour_loop_grid split: option.splits if_splits)
  qed
  from p g e f show ?thesis by blast
qed

theorem offgrid_booking_blocks_nothing_witness:
  "Create utc_host 1890000000000 101 (\<lambda>_. True) catalog [] (request ''2030-01-07'' ''9:00'') =
     (Inr (ann 101 1893974400000 ''9:00'' ''pending'' 1890000000000),
      [ann 101 1893974400000 ''9:00'' ''pending'' 1890000000000], []) \<and>
   available_slots utc_host catalog [ann 101 1893974400000 ''9:00'' ''pending'' 1890000000000]
     ''2030-01-07'' (Some ''65a000000000000000000001'') =
   Inr [''09:00'', ''09:30'', ''10:00'', ''10:30'', ''11:00'', ''11:30'', ''12:00'', ''12:30'',
      ''13:00'', ''13:30'', ''14:00'', ''14:30'', ''15:00'', ''15:30'', ''16:00'', ''16:30'',
      ''17:00'', ''17:30''] \<and>
   available_slots utc_host catalog [ann 102 1893974400000 ''09:00'' ''pending'' 1890000000000]
     ''2030-01-07'' (Some ''65a000000000000000000001'') =
   Inr (filter (\<lambda>t. \<not> (\<exists>c \<in> set [ann 102 1893974400000 ''09:00'' ''pending'' 1890000000000].
                     appointmentDate c = 1893974400000 \<and> active c \<and> appointmentTime c = t)) grid) \<and>
   filter (\<lambda>t. \<not> (\<exists>c \<in> set [ann 102 1893974400000 ''09:00'' ''pending'' 1890000000000].
                     appointmentDate c = 1893974400000 \<and> active c \<and> appointmentTime c = t)) grid =
     [''09:30'', ''10:00'', ''10:30'', ''11:00'', ''11:30'', ''12:00'', ''12:30'',
      ''13:00'', ''13:30'', ''14:00'', ''14:30'', ''15:00'', ''15:30'', ''16:00'', ''16:30'',
      ''17:00'', ''17:30'']"
proof -
  let ?b = "ann 101 1893974400000 ''9:00'' ''pending'' 1890000000000"
  let ?c = "ann 102 1893974400000 ''09:00'' ''pending'' 1890000000000"
  let ?sid = "Some ''65a000000000000000000001''"
  have c: "Create utc_host 1890000000000 101 (\<lambda>_. True) catalog [] (request ''2030-01-07'' ''9:00'') =
     (Inr ?b, [?b], [])"
    by code_simp
  have t: "appointmentTime ?b \<notin> set grid"
    by (simp add: ann_def grid_eq)
  have n: "available_slots utc_host catalog [] ''2030-01-07'' ?sid = Inr grid"
    "newDate utc_host ''2030-01-07'' = Some 1893974400000"
    "getDay utc_host 1893974400000 \<noteq> 0"
    by (simp_all add: available_slots_def utc_host_def catalog_def getDay_def Let_def hour_loop_grid)
  obtain slots where s: "available_slots utc_host catalog [?c] ''2030-01-07'' ?sid = Inr slots"
    by (simp add: available_slots_def utc_host_def catalog_def getDay_def Let_def)
  note inst = offgrid_booking_blocks_nothing [where b = ?b and front = "[]" and rest = "[]"
      and h = utc_host and services = catalog and date = "''2030-01-07''"
      and serviceId = ?sid and bs = "[?c]" and slots = slots and d = 1893974400000]
  from inst t
  have 1: "available_slots utc_host catalog [?b] ''2030-01-07'' ?sid =
      available_slots utc_host catalog [] ''2030-01-07'' ?sid"
    by simp
  from inst s n(2,3)
  have 2: "slots = filter (\<lambda>t. \<not> (\<exists>c \<in> set [?c].
      appointmentDate c = 1893974400000 \<and> active c \<and> appointmentTime c = t)) grid"
    by blast
  have 3: "filter (\<lambda>t. \<not> (\<exists>c \<in> set [?c].
      appointmentDate c = 1893974400000 \<and> active c \<and> appointmentTime c = t)) grid =
     [''09:30'', ''10:00'', ''10:30'', ''11:00'', ''11:30'', ''12:00'', ''12:30'',
      ''13:00'', ''13:30'', ''14:00'', ''14:30'', ''15:00'', ''15:30'', ''16:00'', ''16:30'',
      ''17:00'', ''17:30'']"
    by (simp add: grid_eq ann_def active_def)
  from c 1 n(1) s 2 3 show ?thesis
    by (simp only: grid_eq)
qed

section \<open>Cancel\<close>

lemma Cancel_cases:
  assumes "castObjectId h id' = Some i"
  shows "Cancel h now bs id' =
    (case findById i bs of
       None \<Rightarrow> (Inl (NotFound ''Booking not found''), bs, [])
     | Some b \<Rightarrow>
         if status b = ''cancelled''
         then (Inl (InvalidState ''Booking is already cancelled''), bs, [])
         else if status b = ''completed''
         then (Inl (InvalidState ''Cannot cancel completed booking''), bs, [])
         else if bookingSchema_validate now (b\<lparr>status := ''cancelled''\<rparr>)
         then (Inr (pre_save now (b\<lparr>status := ''cancelled''\<rparr>)),
               updateOne i (pre_save now (b\<lparr>status := ''cancelled''\<rparr>)) bs, [])
         else (Inl (ServerError ''Failed to cancel booking''), bs, [''Error cancelling booking:'']))"
  using assms
  by (auto simp: Cancel_def save_def Let_def pre_save_def dest: findById_SomeD split: option.splits)

text \<open>
  Claim C6. Cancel fails with NotFound when no booking has the id, with InvalidState when
  the booking is cancelled or completed, and in every other case should store and return
  the booking as cancelled. The handler does so through \<^verbatim>\<open>save\<close>, which validates the
  whole document again, so a pending booking whose appointment date is no longer in the
  future cannot be cancelled: the request ends in the server error and the booking stays
  pending. UpdateStatus to cancelled succeeds on the same booking.
\<close>

theorem cancel_rejects_past_booking:
  "Cancel utc_host 1893980000000 [ann 101 1893974400000 ''10:00'' ''pending'' 1890000000000]
     ''65b000000000000000000001'' =
     (Inl (ServerError ''Failed to cancel booking''),
      [ann 101 1893974400000 ''10:00'' ''pending'' 1890000000000], [''Error cancelling booking:'']) \<and>
   UpdateStatus utc_host 1893980000000 [ann 101 1893974400000 ''10:00'' ''pending'' 1890000000000]
     ''65b000000000000000000001'' ''cancelled'' =
     (Inr (ann 101 1893974400000 ''10:00'' ''cancelled'' 1893980000000),
      [ann 101 1893974400000 ''10:00'' ''cancelled'' 1893980000000], [])"
  by code_simp

section \<open>The price snapshot\<close>

lemma set_updateOne_subset: "set (updateOne i doc bs) \<subseteq> insert doc (set bs)"
  by (induction bs) auto

lemma UpdateStatus_store:
  assumes "UpdateStatus h now bs id' status' = (r, bs', out)"
  shows "bs' = bs \<or>
    (\<exists>i b. findById i bs = Some b \<and> bs' = updateOne i (b\<lparr>status := status', updatedAt := now\<rparr>) bs)"
  using assms
  by (auto simp: UpdateStatus_def Let_def split: option.splits if_splits)

lemma Cancel_store:
  assumes "Cancel h now bs id' = (r, bs', out)"
  shows "bs' = bs \<or>
    (\<exists>i b. findById i bs = Some b \<and>
       bs' = updateOne i (b\<lparr>status := ''cancelled'', totalAmount := servicePrice b, updatedAt := now\<rparr>) bs)"
  using Cancel_store_cases [of h now bs id'] assms by (auto simp: pre_save_def)

lemma Create_store:
  assumes "Create h now new_id send services bs req = (r, bs', out)"
  shows "bs' = bs \<or>
    (\<exists>b sid svc. r = Inr b \<and> bs' = bs @ [b] \<and> castObjectId h (req_service req) = Some sid \<and>
       services sid = Some svc \<and> servicePrice b = price svc \<and> totalAmount b = price svc)"
proof (cases r)
  case (Inl e)
  with assms Create_InlD show ?thesis by blast
next
  case (Inr b)
  with assms have c: "Create h now new_id send services bs req = (Inr b, bs', out)" by simp
  from Create_InrD [OF c] obtain sid svc d where
    "castObjectId h (req_service req) = Some sid" "services sid = Some svc"
    "b = pre_save now (new_Booking now new_id sid svc d (sanitize h req))" "bs' = bs @ [b]"
    by blast
  then show ?thesis
    using Inr by (auto simp: pre_save_def new_Booking_def)
qed

lemma UpdateStatus_snapshots:
  assumes "UpdateStatus h now bs id' status' = (r, bs', out)"
  shows "map servicePrice bs' = map servicePrice bs \<and> map totalAmount bs' = map totalAmount bs"
  using UpdateStatus_store [OF assms] by (auto simp: map_updateOne)

lemma Cancel_snapshots:
  assumes "Cancel h now bs id' = (r, bs', out)" and "\<forall>b \<in> set bs. totalAmount b = servicePrice b"
  shows "map servicePrice bs' = map servicePrice bs \<and> map totalAmount bs' = map totalAmount bs"
proof -
  from Cancel_store [OF assms(1)] show ?thesis
  proof
    assume "bs' = bs"
    then show ?thesis by simp
  next
    assume "\<exists>i b. findById i bs = Some b \<and>
       bs' = updateOne i (b\<lparr>status := ''cancelled'', totalAmount := servicePrice b, updatedAt := now\<rparr>) bs"
    then obtain i b where f: "findById i bs = Some b"
      and u: "bs' = updateOne i (b\<lparr>status := ''cancelled'', totalAmount := servicePrice b, updatedAt := now\<rparr>) bs"
      by blast
    from findById_SomeD [OF f] assms(2) have "totalAmount b = servicePrice b" by blast
    with f u show ?thesis by (simp add: map_updateOne)
  qed
qed

lemma snapshot_invariant: "reachable bs \<Longrightarrow> \<forall>b \<in> set bs. totalAmount b = servicePrice b"
proof (induction rule: reachable.induct)
  case empty
  then show ?case by simp
next
  case (create bs h now new_id send services req r bs' out)
  from Create_store [OF create.hyps(2)] create.IH show ?case by auto
next
  case (update bs h now id' status' r bs' out)
  from UpdateStatus_store [OF update.hyps(2)] show ?case
  proof
    assume "bs' = bs"
    with update.IH show ?thesis by simp
  next
    assume "\<exists>i b. findById i bs = Some b \<and>
      bs' = updateOne i (b\<lparr>status := status', updatedAt := now\<rparr>) bs"
    then obtain i b where f: "findById i bs = Some b"
      and u: "bs' = updateOne i (b\<lparr>status := status', updatedAt := now\<rparr>) bs"
      by blast
    from findById_SomeD [OF f] update.IH have "totalAmount b = servicePrice b" by blast
    with u update.IH set_updateOne_subset [of i "b\<lparr>status := status', updatedAt := now\<rparr>" bs]
    show ?thesis by auto
  qed
next
  case (cancel bs h now id' r bs' out)
  from Cancel_store [OF cancel.hyps(2)] show ?case
  proof
    assume "bs' = bs"
    with cancel.IH show ?thesis by simp
  next
    assume "\<exists>i b. findById i bs = Some b \<and>
       bs' = updateOne i (b\<lparr>status := ''cancelled'', totalAmount := servicePrice b, updatedAt := now\<rparr>) bs"
    then obtain i b where
      u: "bs' = updateOne i (b\<lparr>status := ''cancelled'', totalAmount := servicePrice b, updatedAt := now\<rparr>) bs"
      by blast
    with cancel.IH
      set_updateOne_subset [of i "b\<lparr>status := ''cancelled'', totalAmount := servicePrice b, updatedAt := now\<rparr>" bs]
    show ?thesis by auto
  qed
qed

text \<open>
  Claim C5. In every collection that Create, UpdateStatus and Cancel can produce, the
  total amount of every booking equals its snapshotted service price. Create copies both
  from the price the service has at that moment and leaves the bookings already stored as
  they are; UpdateStatus and Cancel, which never read the catalog of services, change
  neither the snapshotted price nor the total amount of any booking.
\<close>

theorem totalAmount_is_snapshot:
  assumes "reachable bs"
  shows "(\<forall>b \<in> set bs. totalAmount b = servicePrice b) \<and>
    (\<forall>h now new_id send services req r bs' out.
       Create h now new_id send services bs req = (r, bs', out) \<longrightarrow>
         bs' = bs \<or>
         (\<exists>b sid svc. r = Inr b \<and> bs' = bs @ [b] \<and>
            castObjectId h (req_service req) = Some sid \<and> services sid = Some svc \<and>
            servicePrice b = price svc \<and> totalAmount b = price svc)) \<and>
    (\<forall>h now id' status' r bs' out.
       UpdateStatus h now bs id' status' = (r, bs', out) \<longrightarrow>
         map servicePrice bs' = map servicePrice bs \<and> map totalAmount bs' = map totalAmount bs) \<and>
    (\<forall>h now id' r bs' out.
       Cancel h now bs id' = (r, bs', out) \<longrightarrow>
         map servicePrice bs' = map servicePrice bs \<and> map totalAmount bs' = map totalAmount bs)"
proof (intro conjI allI impI)
  show inv: "\<forall>b \<in> set bs. totalAmount b = servicePrice b"
    by (rule snapshot_invariant [OF assms])
  show "bs' = bs \<or>
      (\<exists>b sid svc. r = Inr b \<and> bs' = bs @ [b] \<and>
         castObjectId h (req_service req) = Some sid \<and> services sid = Some svc \<and>
         servicePrice b = price svc \<and> totalAmount b = price svc)"
    if "Create h now new_id send services bs req = (r, bs', out)"
    for h now new_id send services req r bs' out
    by (rule Create_store [OF that])
  show "map servicePrice bs' = map servicePrice bs"
    if "UpdateStatus h now bs id' status' = (r, bs', out)" for h now id' status' r bs' out
    using UpdateStatus_snapshots [OF that] by simp
  show "map totalAmount bs' = map totalAmount bs"
    if "UpdateStatus h now bs id' status' = (r, bs', out)" for h now id' status' r bs' out
    using UpdateStatus_snapshots [OF that] by simp
  show "map servicePrice bs' = map servicePrice bs"
    if "Cancel h now bs id' = (r, bs', out)" for h now id' r bs' out
    using Cancel_snapshots [OF that inv] by simp
  show "map totalAmount bs' = map totalAmount bs"
    if "Cancel h now bs id' = (r, bs', out)" for h now id' r bs' out
    using Cancel_snapshots [OF that inv] by simp
qed

theorem totalAmount_is_snapshot_witness:
  "reachable [ann 101 1893974400000 ''10:00'' ''pending'' 1890000000000] \<and>
   totalAmount (ann 101 1893974400000 ''10:00'' ''pending'' 1890000000000) = 50 \<and>
   Create utc_host 1890000000000 102 (\<lambda>_. True) (catalog(1 \<mapsto> haircut\<lparr>price := 80\<rparr>))
     [ann 101 1893974400000 ''10:00'' ''pending'' 1890000000000] (request ''2030-01-08'' ''11:00'') =
     (Inr ((ann 102 1894060800000 ''11:00'' ''pending'' 1890000000000)
             \<lparr>servicePrice := 80, totalAmount := 80\<rparr>),
      [ann 101 1893974400000 ''10:00'' ''pending'' 1890000000000,
       (ann 102 1894060800000 ''11:00'' ''pending'' 1890000000000)
             \<lparr>servicePrice := 80, totalAmount := 80\<rparr>], []) \<and>
   map totalAmount (fst (snd (Cancel utc_host 1890000000000
     [ann 101 1893974400000 ''10:00'' ''pending'' 1890000000000] ''65b000000000000000000001''))) = [50] \<and>
   map totalAmount (fst (snd (UpdateStatus utc_host 1890000000000
     [ann 101 1893974400000 ''10:00'' ''pending'' 1890000000000] ''65b000000000000000000001''
     ''completed''))) = [50]"
proof -
  let ?a = "ann 101 1893974400000 ''10:00'' ''pending'' 1890000000000"
  have c: "Create utc_host 1890000000000 101 (\<lambda>_. True) catalog [] (request ''2030-01-07'' ''10:00'') =
     (Inr ?a, [?a], [])"
    by code_simp
  have r: "reachable [?a]"
    by (rule reachable.create [OF reachable.empty c])
  have p: "servicePrice ?a = 50" by (simp add: ann_def)
  have n: "Create utc_host 1890000000000 102 (\<lambda>_. True) (catalog(1 \<mapsto> haircut\<lparr>price := 80\<rparr>))
     [?a] (request ''2030-01-08'' ''11:00'') =
     (Inr ((ann 102 1894060800000 ''11:00'' ''pending'' 1890000000000)
             \<lparr>servicePrice := 80, totalAmount := 80\<rparr>),
      [?a, (ann 102 1894060800000 ''11:00'' ''pending'' 1890000000000)
             \<lparr>servicePrice := 80, totalAmount := 80\<rparr>], [])"
    by code_simp
  obtain x bs' out where k: "Cancel utc_host 1890000000000 [?a] ''65b000000000000000000001'' = (x, bs', out)"
    by (cases "Cancel utc_host 1890000000000 [?a] ''65b000000000000000000001''") auto
  obtain y bs'' out' where u: "UpdateStatus utc_host 1890000000000 [?a]
      ''65b000000000000000000001'' ''completed'' = (y, bs'', out')"
    by (cases "UpdateStatus utc_host 1890000000000 [?a] ''65b000000000000000000001'' ''completed''")
      auto
  from totalAmount_is_snapshot [OF r] have "totalAmount ?a = servicePrice ?a"
    by simp
  moreover from totalAmount_is_snapshot [OF r] k have "map totalAmount bs' = map totalAmount [?a]"
    by blast
  moreover from totalAmount_is_snapshot [OF r] u have "map totalAmount bs'' = map totalAmount [?a]"
    by blast
  ultimately show ?thesis using r p n k u by simp
qed

section \<open>Booked and cancelled slots\<close>

text \<open>No two bookings of a collection that the operations produce have the same id.\<close>

lemma reachable_distinct_ids: "reachable bs \<Longrightarrow> distinct (map booking_id bs)"
proof (induction rule: reachable.induct)
  case empty
  then show ?case by simp
next
  case (create bs h now new_id send services req r bs' out)
  show ?case
  proof (cases r)
    case (Inl e)
    with create.hyps(2) Create_InlD have "bs' = bs" by blast
    with create.IH show ?thesis by simp
  next
    case (Inr b)
    with create.hyps(2) have c: "Create h now new_id send services bs req = (Inr b, bs', out)"
      by simp
    from Create_InrD [OF c] obtain sid svc d where
      "findById new_id bs = None"
      "b = pre_save now (new_Booking now new_id sid svc d (sanitize h req))" "bs' = bs @ [b]"
      by blast
    then have "booking_id b \<notin> booking_id ` set bs" "bs' = bs @ [b]"
      by (simp_all add: findById_None_iff pre_save_def new_Booking_def)
    with create.IH show ?thesis by simp
  qed
next
  case (update bs h now id' status' r bs' out)
  from UpdateStatus_store [OF update.hyps(2)] findById_SomeD
  have "map booking_id bs' = map booking_id bs"
    by (auto simp: ids_updateOne)
  with update.IH show ?case by simp
next
  case (cancel bs h now id' r bs' out)
  from Cancel_store [OF cancel.hyps(2)] findById_SomeD
  have "map booking_id bs' = map booking_id bs"
    by (auto simp: ids_updateOne)
  with cancel.IH show ?case by simp
qed

lemma active_time_excluded:
  assumes "b \<in> set bs" and "active b" and "newDate h date = Some (appointmentDate b)"
    and "available_slots h services bs date serviceId = Inr slots"
  shows "appointmentTime b \<notin> set slots"
  using assms
  by (auto simp: available_slots_def Let_def hour_loop_grid split: option.splits if_splits)

lemma Create_stores_active:
  assumes "Create h now new_id send services bs req = (Inr b, bs', out)"
  shows "findById new_id bs' = Some b \<and> active b \<and>
    newDate h (req_appointmentDate req) = Some (appointmentDate b) \<and>
    appointmentTime b = trim (req_appointmentTime req) \<and>
    (\<forall>c \<in> set bs'. c \<noteq> b \<longrightarrow>
       \<not> (appointmentDate c = appointmentDate b \<and> appointmentTime c = appointmentTime b \<and> active c))"
proof -
  from Create_InrD [OF assms] obtain sid svc d where
    d: "newDate h (req_appointmentDate req) = Some d"
    and n: "find (\<lambda>c. appointmentDate c = d \<and> appointmentTime c = trim (req_appointmentTime req) \<and> active c) bs = None"
    and f: "findById new_id bs = None"
    and b: "b = pre_save now (new_Booking now new_id sid svc d (sanitize h req))"
    and s: "bs' = bs @ [b]"
    by blast
  from b have p: "booking_id b = new_id" "appointmentDate b = d"
    "appointmentTime b = trim (req_appointmentTime req)" "status b = ''pending''"
    by (simp_all add: pre_save_def new_Booking_def sanitize_def)
  have "find P (xs @ [x]) = Some x" if "find P xs = None" "P x" for P and xs :: "booking list" and x
    using that by (induction xs) (auto split: if_splits)
  with f s p(1) have "findById new_id bs' = Some b"
    by (simp add: findById_def)
  moreover from n have "\<forall>c \<in> set bs. \<not> (appointmentDate c = d \<and>
      appointmentTime c = trim (req_appointmentTime req) \<and> active c)"
    by (simp add: find_None_iff)
  ultimately show ?thesis
    using p d s by (auto simp: active_def)
qed

text \<open>
  Claim C2, as amended. While a booking with appointment date D and time T is pending or
  confirmed, an availability query (for a service that exists) whose date parses to the
  very instant D does not offer T. Once that booking is cancelled, such a query offers T
  again provided the weekday that the handler computes for D (\<^const>\<open>getDay\<close>, in the
  server's local time) is not Sunday, T is one of the 18 strings of the grid, and no other
  pending or confirmed booking is stored at D and T. The ids of the collection are
  distinct, as they are in every collection that the operations produce.
\<close>

theorem cancelled_slot_is_offered_again:
  assumes "findById i bs = Some b" and "active b"
    and "newDate h date = Some (appointmentDate b)"
    and "sid \<noteq> []" and "castObjectId h sid = Some oid" and "services oid = Some svc"
  shows "(\<exists>slots. available_slots h services bs date (Some sid) = Inr slots \<and>
            appointmentTime b \<notin> set slots) \<and>
    (distinct (map booking_id bs) \<and> castObjectId h id' = Some i \<and>
     Cancel h now bs id' = (Inr b', bs', out) \<and>
     getDay h (appointmentDate b) \<noteq> 0 \<and> appointmentTime b \<in> set grid \<and>
     (\<forall>c \<in> set bs. c \<noteq> b \<longrightarrow>
        \<not> (appointmentDate c = appointmentDate b \<and> appointmentTime c = appointmentTime b \<and>
           active c)) \<longrightarrow>
       (\<exists>slots. available_slots h services bs' date (Some sid) = Inr slots \<and>
          appointmentTime b \<in> set slots))"
proof (intro conjI impI)
  from assms(3-6) obtain slots where s: "available_slots h services bs date (Some sid) = Inr slots"
    by (cases "getDay h (appointmentDate b) = 0") (simp_all add: available_slots_resolved)
  from findById_SomeD [OF assms(1)] have "b \<in> set bs" by simp
  from active_time_excluded [OF this assms(2,3) s] s
  show "\<exists>slots. available_slots h services bs date (Some sid) = Inr slots \<and>
      appointmentTime b \<notin> set slots"
    by blast
next
  assume a: "distinct (map booking_id bs) \<and> castObjectId h id' = Some i \<and>
     Cancel h now bs id' = (Inr b', bs', out) \<and>
     getDay h (appointmentDate b) \<noteq> 0 \<and> appointmentTime b \<in> set grid \<and>
     (\<forall>c \<in> set bs. c \<noteq> b \<longrightarrow>
        \<not> (appointmentDate c = appointmentDate b \<and> appointmentTime c = appointmentTime b \<and>
           active c))"
  from a Cancel_InrD [of h now bs id' b' bs' out] assms(1)
  have b': "b' = pre_save now (b\<lparr>status := ''cancelled''\<rparr>)" and u: "bs' = updateOne i b' bs"
    by auto
  from u a assms(1) have set: "set bs' = insert b' (set bs - {b})"
    by (simp add: set_updateOne)
  from b' have "\<not> active b'"
    by (simp add: pre_save_def active_def)
  with set a have "\<forall>c \<in> set bs'. \<not> (appointmentDate c = appointmentDate b \<and>
      appointmentTime c = appointmentTime b \<and> active c)"
    by auto
  then have "appointmentTime b \<notin> set (map appointmentTime
      (filter (\<lambda>c. appointmentDate c = appointmentDate b \<and> active c) bs'))"
    by auto
  with a assms(3-6)
  show "\<exists>slots. available_slots h services bs' date (Some sid) = Inr slots \<and>
      appointmentTime b \<in> set slots"
    by (simp add: available_slots_resolved)
qed

theorem cancelled_slot_is_offered_again_witness:
  "Create utc_host 1890000000000 101 (\<lambda>_. True) catalog [] (request ''2030-01-07'' ''10:00'') =
     (Inr (ann 101 1893974400000 ''10:00'' ''pending'' 1890000000000),
      [ann 101 1893974400000 ''10:00'' ''pending'' 1890000000000], []) \<and>
   (\<exists>slots. available_slots utc_host catalog
       [ann 101 1893974400000 ''10:00'' ''pending'' 1890000000000]
       ''2030-01-07'' (Some ''65a000000000000000000001'') = Inr slots \<and> ''10:00'' \<notin> set slots) \<and>
   Cancel utc_host 1890000000000 [ann 101 1893974400000 ''10:00'' ''pending'' 1890000000000]
     ''65b000000000000000000001'' =
     (Inr (ann 101 1893974400000 ''10:00'' ''cancelled'' 1890000000000),
      [ann 101 1893974400000 ''10:00'' ''cancelled'' 1890000000000], []) \<and>
   (\<exists>slots. available_slots utc_host catalog
       [ann 101 1893974400000 ''10:00'' ''cancelled'' 1890000000000]
       ''2030-01-07'' (Some ''65a000000000000000000001'') = Inr slots \<and> ''10:00'' \<in> set slots)"
proof -
  let ?a = "ann 101 1893974400000 ''10:00'' ''pending'' 1890000000000"
  let ?a' = "ann 101 1893974400000 ''10:00'' ''cancelled'' 1890000000000"
  have c: "Create utc_host 1890000000000 101 (\<lambda>_. True) catalog [] (request ''2030-01-07'' ''10:00'') =
     (Inr ?a, [?a], [])"
    by code_simp
  have k: "Cancel utc_host 1890000000000 [?a] ''65b000000000000000000001'' = (Inr ?a', [?a'], [])"
    by code_simp
  have h: "findById 101 [?a] = Some ?a" "active ?a"
    "newDate utc_host ''2030-01-07'' = Some (appointmentDate ?a)"
    "''65a000000000000000000001'' \<noteq> []"
    "castObjectId utc_host ''65a000000000000000000001'' = Some 1" "catalog 1 = Some haircut"
    by (simp_all add: findById_def ann_def active_def utc_host_def catalog_def)
  have g: "distinct (map booking_id [?a])"
    "castObjectId utc_host ''65b000000000000000000001'' = Some 101"
    "getDay utc_host (appointmentDate ?a) \<noteq> 0" "appointmentTime ?a \<in> set grid"
    "\<forall>c \<in> set [?a]. c \<noteq> ?a \<longrightarrow>
        \<not> (appointmentDate c = appointmentDate ?a \<and> appointmentTime c = appointmentTime ?a \<and>
           active c)"
    by (simp_all add: utc_host_def getDay_def ann_def grid_eq)
  have t: "appointmentTime ?a = ''10:00''" by (simp add: ann_def)
  note inst = cancelled_slot_is_offered_again [where h = utc_host and services = catalog
      and i = 101 and bs = "[?a]" and b = ?a and date = "''2030-01-07''"
      and sid = "''65a000000000000000000001''" and oid = 1 and svc = haircut
      and id' = "''65b000000000000000000001''"
      and now = 1890000000000 and b' = ?a' and bs' = "[?a']" and out = "[]", OF h]
  from inst have 1: "\<exists>slots. available_slots utc_host catalog [?a] ''2030-01-07''
      (Some ''65a000000000000000000001'') = Inr slots \<and> appointmentTime ?a \<notin> set slots"
    by blast
  from inst g k have 2: "\<exists>slots. available_slots utc_host catalog [?a'] ''2030-01-07''
      (Some ''65a000000000000000000001'') = Inr slots \<and> appointmentTime ?a \<in> set slots"
    by blast
  from c k 1 2 show ?thesis unfolding t by blast
qed

text \<open>
  Claim C2 as stated fails in four ways. Create accepts a time that is not a string of
  the grid (10:17) and a date that is a Sunday; after the cancellation of such a booking
  the query still does not offer its time. UpdateStatus can make a cancelled booking
  confirmed again beside a newer booking of the same date and time; after the cancellation
  of the newer one the time is still taken. And both queries compare the stored date with
  the parsed one as instants: a booking made for 10:00 with the date written as
  \<^verbatim>\<open>2030-01-07T10:00:00.000Z\<close> does not keep the query for \<^verbatim>\<open>2030-01-07\<close> from offering
  10:00.
\<close>

theorem cancelled_slot_not_offered_counterexample:
  "Create utc_host 1890000000000 101 (\<lambda>_. True) catalog [] (request ''2030-01-07'' ''10:17'') =
     (Inr (ann 101 1893974400000 ''10:17'' ''pending'' 1890000000000),
      [ann 101 1893974400000 ''10:17'' ''pending'' 1890000000000], []) \<and>
   Cancel utc_host 1890000000000 [ann 101 1893974400000 ''10:17'' ''pending'' 1890000000000]
     ''65b000000000000000000001'' =
     (Inr (ann 101 1893974400000 ''10:17'' ''cancelled'' 1890000000000),
      [ann 101 1893974400000 ''10:17'' ''cancelled'' 1890000000000], []) \<and>
   available_slots utc_host catalog [ann 101 1893974400000 ''10:17'' ''cancelled'' 1890000000000]
     ''2030-01-07'' (Some ''65a000000000000000000001'') =
     Inr [''09:00'', ''09:30'', ''10:00'', ''10:30'', ''11:00'', ''11:30'', ''12:00'', ''12:30'',
       ''13:00'', ''13:30'', ''14:00'', ''14:30'', ''15:00'', ''15:30'', ''16:00'', ''16:30'',
       ''17:00'', ''17:30''] \<and>
   Create utc_host 1890000000000 101 (\<lambda>_. True) catalog [] (request ''2030-01-06'' ''10:00'') =
     (Inr (ann 101 1893888000000 ''10:00'' ''pending'' 1890000000000),
      [ann 101 1893888000000 ''10:00'' ''pending'' 1890000000000], []) \<and>
   Cancel utc_host 1890000000000 [ann 101 1893888000000 ''10:00'' ''pending'' 1890000000000]
     ''65b000000000000000000001'' =
     (Inr (ann 101 1893888000000 ''10:00'' ''cancelled'' 1890000000000),
      [ann 101 1893888000000 ''10:00'' ''cancelled'' 1890000000000], []) \<and>
   available_slots utc_host catalog [ann 101 1893888000000 ''10:00'' ''cancelled'' 1890000000000]
     ''2030-01-06'' (Some ''65a000000000000000000001'') = Inr [] \<and>
   Create utc_host 1890000000000 102 (\<lambda>_. True) catalog
     [ann 101 1893974400000 ''10:00'' ''cancelled'' 1890000000000] (request ''2030-01-07'' ''10:00'') =
     (Inr (ann 102 1893974400000 ''10:00'' ''pending'' 1890000000000),
      [ann 101 1893974400000 ''10:00'' ''cancelled'' 1890000000000,
       ann 102 1893974400000 ''10:00'' ''pending'' 1890000000000], []) \<and>
   UpdateStatus utc_host 1890000000000
     [ann 101 1893974400000 ''10:00'' ''cancelled'' 1890000000000,
      ann 102 1893974400000 ''10:00'' ''pending'' 1890000000000]
     ''65b000000000000000000001'' ''confirmed'' =
     (Inr (ann 101 1893974400000 ''10:00'' ''confirmed'' 1890000000000),
      [ann 101 1893974400000 ''10:00'' ''confirmed'' 1890000000000,
       ann 102 1893974400000 ''10:00'' ''pending'' 1890000000000], []) \<and>
   Cancel utc_host 1890000000000
     [ann 101 1893974400000 ''10:00'' ''confirmed'' 1890000000000,
      ann 102 1893974400000 ''10:00'' ''pending'' 1890000000000]
     ''65b000000000000000000002'' =
     (Inr (ann 102 1893974400000 ''10:00'' ''cancelled'' 1890000000000),
      [ann 101 1893974400000 ''10:00'' ''confirmed'' 1890000000000,
       ann 102 1893974400000 ''10:00'' ''cancelled'' 1890000000000], []) \<and>
   available_slots utc_host catalog
     [ann 101 1893974400000 ''10:00'' ''confirmed'' 1890000000000,
      ann 102 1893974400000 ''10:00'' ''cancelled'' 1890000000000]
     ''2030-01-07'' (Some ''65a000000000000000000001'') =
     Inr [''09:00'', ''09:30'', ''10:30'', ''11:00'', ''11:30'', ''12:00'', ''12:30'',
       ''13:00'', ''13:30'', ''14:00'', ''14:30'', ''15:00'', ''15:30'', ''16:00'', ''16:30'',
       ''17:00'', ''17:30''] \<and>
   Create utc_host 1890000000000 101 (\<lambda>_. True) catalog []
     (request ''2030-01-07T10:00:00.000Z'' ''10:00'') =
     (Inr (ann 101 1894010400000 ''10:00'' ''pending'' 1890000000000),
      [ann 101 1894010400000 ''10:00'' ''pending'' 1890000000000], []) \<and>
   available_slots utc_host catalog [ann 101 1894010400000 ''10:00'' ''pending'' 1890000000000]
     ''2030-01-07'' (Some ''65a000000000000000000001'') =
     Inr [''09:00'', ''09:30'', ''10:00'', ''10:30'', ''11:00'', ''11:30'', ''12:00'', ''12:30'',
       ''13:00'', ''13:30'', ''14:00'', ''14:30'', ''15:00'', ''15:30'', ''16:00'', ''16:30'',
       ''17:00'', ''17:30'']"
proof (intro conjI)
qed code_simp+

end
